theory Spec2Isabelle
  imports Main "HOL-Library.Multiset"
begin

section \<open>Python values, errors and strings\<close>

text \<open>
  The three clients of the repository (\<^verbatim>\<open>client.py\<close>: \<^verbatim>\<open>MCPClient\<close>,
  \<^verbatim>\<open>client2.py\<close>: \<^verbatim>\<open>GeminiClient\<close>, \<^verbatim>\<open>client3.py\<close>: \<^verbatim>\<open>SimpleChatClient\<close>)
  are embedded as functions that pass a \<open>world\<close> explicitly and return an error or a
  value. A raised exception is \<open>Inl e\<close>; the world reached when it is raised is
  returned with it, since Python does not roll effects back.

  Strings are \<open>string\<close>: a character is a code point below 256 (the Latin-1 range
  of Python's \<^verbatim>\<open>str\<close>), and \<^verbatim>\<open>isspace\<close>, \<^verbatim>\<open>strip\<close> and \<^verbatim>\<open>lower\<close> are Python's on that
  range. A value decoded from JSON is a
  \<open>json\<close>; a Python \<^verbatim>\<open>dict\<close> is an association list in insertion order whose
  keys are distinct, read with \<open>map_of\<close>. A float is kept as an opaque pair
  (the code never computes with one).
\<close>

datatype json =
    JNull
  | JBool bool
  | JInt int
  | JFloat int int
  | JStr string
  | JList "json list"
  | JObj "(string \<times> json) list"

type_synonym path = "string list"

datatype error =
    ValueError string
  | AttributeError
  | TypeError
  | IndexError
  | JSONDecodeError
  | PermissionError path
  | FileNotFoundError
  | FileExistsError
  | IsADirectoryError
  | NotADirectoryError
  | UnicodeDecodeError
  | UnicodeEncodeError
  | ValidationError
  | EOFError
  | ClientError string
  | McpError string

text \<open>\<^verbatim>\<open>s.endswith(suf)\<close>.\<close>

definition endswith :: "string \<Rightarrow> string \<Rightarrow> bool" where
  "endswith s suf = (length suf \<le> length s \<and> drop (length s - length suf) s = suf)"

text \<open>
  \<^verbatim>\<open>str.isspace\<close> below 256: the controls 9 to 13, the separators 28 to 31, the space,
  next line (133) and the no-break space (160).
\<close>

definition isspace :: "char \<Rightarrow> bool" where
  "isspace c = (of_char c \<in> {9, 10, 11, 12, 13, 28, 29, 30, 31, 32, 133, 160 :: nat})"

text \<open>\<^verbatim>\<open>s.strip()\<close>.\<close>

definition strip :: "string \<Rightarrow> string" where
  "strip s = rev (dropWhile isspace (rev (dropWhile isspace s)))"

text \<open>
  \<^verbatim>\<open>s.lower()\<close> below 256: the letters from \<^verbatim>\<open>A\<close> (65) to \<^verbatim>\<open>Z\<close> (90) and the
  accented capitals from 192 to 222, the multiplication sign 215 apart, move up by 32,
  which is setting the bit of value 32, clear in all of them. Every other character is
  its own lower case.
\<close>

definition is_upper :: "char \<Rightarrow> bool" where
  "is_upper c =
     (let n = (of_char c :: nat) in
      (65 \<le> n \<and> n \<le> 90) \<or> (192 \<le> n \<and> n \<le> 222 \<and> n \<noteq> 215))"

definition lower_char :: "char \<Rightarrow> char" where
  "lower_char c =
     (case c of
        Char b0 b1 b2 b3 b4 b5 b6 b7 \<Rightarrow>
          if is_upper c then Char b0 b1 b2 b3 b4 True b6 b7 else c)"

definition lower :: "string \<Rightarrow> string" where
  "lower s = map lower_char s"

text \<open>\<^verbatim>\<open>sep.join(xs)\<close>.\<close>

fun join :: "string \<Rightarrow> string list \<Rightarrow> string" where
  "join sep [] = []"
| "join sep [x] = x"
| "join sep (x # y # ys) = x @ sep @ join sep (y # ys)"

section \<open>The model service\<close>

text \<open>
  A reply of \<^verbatim>\<open>generate_content\<close>: candidates, each with a content that may have
  \<^verbatim>\<open>parts\<close> and may have a flat \<^verbatim>\<open>text\<close>; a part may carry a function call and may
  carry text. \<open>None\<close> stands for an attribute that is absent or \<^verbatim>\<open>None\<close> (the code
  reads both the same way through \<^verbatim>\<open>getattr\<close>/\<^verbatim>\<open>hasattr\<close> and truth tests).
  The arguments of a function call arrive as a serialized string or as a mapping.
\<close>

record usage_metadata =
  prompt_token_count :: int
  candidates_token_count :: int

datatype raw_args = ArgsStr string | ArgsDict "(string \<times> json) list"

record function_call =
  fc_name :: string
  fc_args :: raw_args

record part =
  part_function_call :: "function_call option"
  part_text :: "string option"

record content =
  content_parts :: "part list option"
  content_text :: "string option"

record candidate =
  cand_content :: content

record response =
  resp_candidates :: "candidate list"
  resp_usage_metadata :: usage_metadata

text \<open>
  The function declarations sent with a request: \<^verbatim>\<open>{"name", "description",
  "parameters": {"type", "properties": {k: {"type", "description"}}, "required"}}\<close>.
\<close>

record property_decl =
  prop_type :: json
  prop_description :: json

record parameters_decl =
  par_type :: json
  par_properties :: "(string \<times> property_decl) list"
  par_required :: json

record function_declaration =
  fd_name :: string
  fd_description :: "string option"
  fd_parameters :: parameters_decl

text \<open>
  A request: the model name, \<^verbatim>\<open>contents\<close> and the tools of the config (\<open>None\<close> when
  no config is passed). An item of \<^verbatim>\<open>contents\<close> is the user's query or the result of
  \<^verbatim>\<open>json.dumps\<close>, which is kept symbolic.
\<close>

datatype payload = Query string | JsonDumps json

record request =
  req_model :: string
  req_contents :: "payload list"
  req_tools :: "function_declaration list option"

datatype model_outcome = ModelRaises error | ModelReplies response

text \<open>
  The service is any function of the exchanges made so far and of the request: every
  deterministic behaviour, stateful or not, is one.
\<close>

type_synonym model_service = "(request \<times> model_outcome) list \<Rightarrow> request \<Rightarrow> model_outcome"

section \<open>The tool provider, the file system and the world\<close>

record tool =
  tool_name :: string
  tool_description :: "string option"
  tool_inputSchema :: "(string \<times> json) list"

datatype content_item = TextContent string | OtherContent

record call_tool_result =
  ctr_content :: "content_item list"
  ctr_isError :: bool

datatype tool_outcome = ToolRaises error | ToolReturns call_tool_result

text \<open>
  A session with a tool provider: what \<^verbatim>\<open>initialize\<close> raises (if anything), the
  catalog after the calls made so far, and the outcome of a call after them.
\<close>

record mcp_session =
  ses_initialize :: "error option"
  ses_list_tools :: "(string \<times> json) list \<Rightarrow> error + tool list"
  ses_call_tool :: "(string \<times> json) list \<Rightarrow> string \<Rightarrow> json \<Rightarrow> tool_outcome"

datatype node = File string | Dir

text \<open>What is written to standard output, one value per \<^verbatim>\<open>print\<close> (or prompt).\<close>

datatype printed =
    Print string
  | PrintTools "string list"
  | PrintCalling string string json
  | PrintResults json
  | PrintText "string option"
  | PrintTokens int int int
  | PrintError string error

record world =
  model_log :: "(request \<times> model_outcome) list"
  tool_log :: "(string \<times> json) list"
  stdout :: "printed list"
  fs :: "path \<rightharpoonup> node"
  fs_reads :: "path list"

text \<open>
  The dictionary every \<^verbatim>\<open>process_query\<close> returns: \<^verbatim>\<open>{"text", "usage_metadata":
  {"prompt_token_count", "response_token_count"}}\<close>. The text is \<open>None\<close> when the
  part it is read from has none.
\<close>

record usage =
  res_prompt_token_count :: int
  res_response_token_count :: int

record query_result =
  res_text :: "string option"
  res_usage_metadata :: usage

text \<open>
  What the code takes from Python's library, from the SDK and from the process it runs
  in, as parameters: \<^verbatim>\<open>json.loads\<close> (\<open>Inl\<close> when it raises); the validation that
  \<^verbatim>\<open>types.Tool\<close> and \<^verbatim>\<open>types.GenerateContentConfig\<close> run on the declarations they are
  built from (the error they raise, if any); \<^verbatim>\<open>os.path.expanduser\<close>;
  \<^verbatim>\<open>Path.resolve(strict=False)\<close> (the components of the absolute path, or the error it
  raises, as on a path with a null character); decoding and encoding UTF-8 (\<open>None\<close> when
  it fails); \<^verbatim>\<open>base64.b64encode\<close>; \<^verbatim>\<open>os.linesep\<close>; \<^verbatim>\<open>Path.rglob\<close> (from a directory, for
  the value the pattern is built from); and the working directory \<^verbatim>\<open>ALLOWED_BASE\<close> is
  bound to when \<^verbatim>\<open>client2.py\<close> is loaded.
\<close>

record runtime =
  json_loads :: "string \<Rightarrow> error + json"
  types_Tool :: "function_declaration list \<Rightarrow> error option"
  expanduser :: "string \<Rightarrow> string"
  resolve :: "string \<Rightarrow> error + path"
  decode_utf8 :: "string \<Rightarrow> string option"
  encode_utf8 :: "string \<Rightarrow> string option"
  b64encode :: "string \<Rightarrow> string"
  linesep :: string
  rglob :: "(path \<rightharpoonup> node) \<Rightarrow> path \<Rightarrow> json \<Rightarrow> error + path list"
  ALLOWED_BASE :: path

text \<open>\<^verbatim>\<open>d.get(k, default)\<close>.\<close>

definition dict_get :: "(string \<times> json) list \<Rightarrow> string \<Rightarrow> json \<Rightarrow> json" where
  "dict_get d k dflt = (case map_of d k of None \<Rightarrow> dflt | Some v \<Rightarrow> v)"

text \<open>
  One call of \<^verbatim>\<open>models.generate_content\<close>: the exchange is appended to the log
  whether the service replies or raises.
\<close>

definition generate_content ::
  "model_service \<Rightarrow> request \<Rightarrow> world \<Rightarrow> (error + response) \<times> world" where
  "generate_content service req w =
     (let out = service (model_log w) req;
          w' = w\<lparr>model_log := model_log w @ [(req, out)]\<rparr>
      in case out of ModelRaises e \<Rightarrow> (Inl e, w') | ModelReplies r \<Rightarrow> (Inr r, w'))"

text \<open>
  \<^verbatim>\<open>args = json.loads(raw_args) if isinstance(raw_args, str) else raw_args\<close>.
\<close>

definition normalize_args :: "runtime \<Rightarrow> raw_args \<Rightarrow> error + json" where
  "normalize_args rt raw_args =
     (case raw_args of ArgsStr s \<Rightarrow> json_loads rt s | ArgsDict d \<Rightarrow> Inr (JObj d))"

section \<open>\<^verbatim>\<open>client.py\<close>: connecting to a tool provider\<close>

record server_params =
  sp_command :: string
  sp_args :: "string list"

datatype resource = StdioTransport server_params | SessionContext

record mcp_client =
  session :: "mcp_session option"
  exit_stack :: "resource list"

text \<open>
  The dispatch at the head of \<^verbatim>\<open>MCPClient.connect_to_server\<close> (lines 24 to 31): the
  command and its arguments, or the \<^verbatim>\<open>ValueError\<close> raised for any other target.
\<close>

definition resolve_command :: "string \<Rightarrow> error + string \<times> string list" where
  "resolve_command server_script_path =
     (if server_script_path = ''fs-mcp-server'' then Inr (''fs-mcp-server'', [])
      else if endswith server_script_path ''.py'' then Inr (''python'', [server_script_path])
      else if endswith server_script_path ''.js'' then Inr (''node'', [server_script_path])
      else Inl (ValueError ''Server script must be a .py, .js, or 'fs-mcp-server'.''))"

text \<open>
  \<^verbatim>\<open>MCPClient.connect_to_server\<close>. \<open>stdio_client\<close> is the transport: it spawns the
  command and yields the session, or raises. Entering a context pushes it on the exit
  stack.
\<close>

definition connect_to_server ::
  "(server_params \<Rightarrow> error + mcp_session) \<Rightarrow> string \<Rightarrow> mcp_client \<Rightarrow> world
     \<Rightarrow> (error + unit) \<times> mcp_client \<times> world" where
  "connect_to_server stdio_client server_script_path c w =
     (case resolve_command server_script_path of
        Inl e \<Rightarrow> (Inl e, c, w)
      | Inr (command, args) \<Rightarrow>
          (let params = \<lparr>sp_command = command, sp_args = args\<rparr> in
           case stdio_client params of
             Inl e \<Rightarrow> (Inl e, c, w)
           | Inr ses \<Rightarrow>
               (let c1 = c\<lparr>exit_stack := exit_stack c @ [StdioTransport params]\<rparr>;
                    c2 = c1\<lparr>session := Some ses,
                            exit_stack := exit_stack c1 @ [SessionContext]\<rparr>
                in case ses_initialize ses of
                     Some e \<Rightarrow> (Inl e, c2, w)
                   | None \<Rightarrow>
                       (case ses_list_tools ses (tool_log w) of
                          Inl e \<Rightarrow> (Inl e, c2, w)
                        | Inr tools \<Rightarrow>
                            (Inr (), c2,
                             w\<lparr>stdout := stdout w @ [PrintTools (map tool_name tools)]\<rparr>)))))"

section \<open>\<^verbatim>\<open>client.py\<close>: one query through the model and the provider's tools\<close>

text \<open>
  The schema translation at the head of \<^verbatim>\<open>MCPClient.process_query\<close> (lines 47 to 60).
  A property \<^verbatim>\<open>v\<close> is read with \<^verbatim>\<open>v.get\<close>, and the properties with \<^verbatim>\<open>.items()\<close>:
  a value that is not a mapping has neither, and the attribute access raises.
\<close>

definition translate_property :: "json \<Rightarrow> error + property_decl" where
  "translate_property v =
     (case v of
        JObj d \<Rightarrow>
          Inr \<lparr>prop_type = dict_get d ''type'' (JStr ''string''),
               prop_description = dict_get d ''description'' (JStr [])\<rparr>
      | _ \<Rightarrow> Inl AttributeError)"

fun translate_properties :: "(string \<times> json) list \<Rightarrow> error + (string \<times> property_decl) list" where
  "translate_properties [] = Inr []"
| "translate_properties ((k, v) # kvs) =
     (case translate_property v of
        Inl e \<Rightarrow> Inl e
      | Inr p \<Rightarrow>
          (case translate_properties kvs of
             Inl e \<Rightarrow> Inl e
           | Inr ps \<Rightarrow> Inr ((k, p) # ps)))"

definition translate_tool :: "tool \<Rightarrow> error + function_declaration" where
  "translate_tool t =
     (case dict_get (tool_inputSchema t) ''properties'' (JObj []) of
        JObj props \<Rightarrow>
          (case translate_properties props of
             Inl e \<Rightarrow> Inl e
           | Inr ps \<Rightarrow>
               Inr \<lparr>fd_name = tool_name t,
                    fd_description = tool_description t,
                    fd_parameters =
                      \<lparr>par_type = dict_get (tool_inputSchema t) ''type'' (JStr ''object''),
                       par_properties = ps,
                       par_required = dict_get (tool_inputSchema t) ''required'' (JList [])\<rparr>\<rparr>)
      | _ \<Rightarrow> Inl AttributeError)"

fun tool_descs :: "tool list \<Rightarrow> error + function_declaration list" where
  "tool_descs [] = Inr []"
| "tool_descs (t # ts) =
     (case translate_tool t of
        Inl e \<Rightarrow> Inl e
      | Inr d \<Rightarrow>
          (case tool_descs ts of
             Inl e \<Rightarrow> Inl e
           | Inr ds \<Rightarrow> Inr (d # ds)))"

text \<open>
  Lines 61 and 62 build \<^verbatim>\<open>types.Tool(function_declarations=tool_descs)\<close> and the
  request's config from it: the SDK validates the declarations and may raise.
\<close>

definition tools_schema :: "runtime \<Rightarrow> tool list \<Rightarrow> error + function_declaration list" where
  "tools_schema rt tools =
     (case tool_descs tools of
        Inl e \<Rightarrow> Inl e
      | Inr descs \<Rightarrow>
          (case types_Tool rt descs of
             Some e \<Rightarrow> Inl e
           | None \<Rightarrow> Inr descs))"

text \<open>
  Folding a tool's raw output (lines 88 to 92). \<^verbatim>\<open>for item in data\<close> runs over the
  elements of a list, the keys of a mapping and the characters of a string, and raises
  on anything else; \<^verbatim>\<open>item.get("text", "")\<close> needs a mapping; \<^verbatim>\<open>"\n".join\<close> needs
  strings. The bare \<^verbatim>\<open>except\<close> turns every one of these errors into the raw output.
\<close>

definition iterate :: "json \<Rightarrow> error + json list" where
  "iterate data =
     (case data of
        JList xs \<Rightarrow> Inr xs
      | JObj d \<Rightarrow> Inr (map (\<lambda>kv. JStr (fst kv)) d)
      | JStr s \<Rightarrow> Inr (map (\<lambda>c. JStr [c]) s)
      | _ \<Rightarrow> Inl TypeError)"

definition item_text :: "json \<Rightarrow> error + string" where
  "item_text item =
     (case item of
        JObj d \<Rightarrow> (case dict_get d ''text'' (JStr []) of JStr s \<Rightarrow> Inr s | _ \<Rightarrow> Inl TypeError)
      | _ \<Rightarrow> Inl AttributeError)"

fun item_texts :: "json list \<Rightarrow> error + string list" where
  "item_texts [] = Inr []"
| "item_texts (item # items) =
     (case item_text item of
        Inl e \<Rightarrow> Inl e
      | Inr s \<Rightarrow>
          (case item_texts items of
             Inl e \<Rightarrow> Inl e
           | Inr ss \<Rightarrow> Inr (s # ss)))"

definition join_items :: "runtime \<Rightarrow> string \<Rightarrow> error + string" where
  "join_items rt raw =
     (case json_loads rt raw of
        Inl e \<Rightarrow> Inl e
      | Inr data \<Rightarrow>
          (case iterate data of
             Inl e \<Rightarrow> Inl e
           | Inr items \<Rightarrow>
               (case item_texts items of
                  Inl e \<Rightarrow> Inl e
                | Inr ss \<Rightarrow> Inr (join ''\<newline>'' ss))))"

definition list_result :: "runtime \<Rightarrow> string \<Rightarrow> string" where
  "list_result rt raw = (case join_items rt raw of Inl e \<Rightarrow> raw | Inr s \<Rightarrow> s)"

text \<open>
  The catalogs on which the translation succeeds: the \<^verbatim>\<open>properties\<close> entry of the input
  schema, when there is one, is a mapping whose values are mappings. \<open>kinds_translated\<close>
  says what kind each parameter is given: its \<^verbatim>\<open>type\<close> entry when it has one, else
  \<^verbatim>\<open>string\<close>.
\<close>

definition is_mapping :: "json \<Rightarrow> bool" where
  "is_mapping v = (case v of JObj d \<Rightarrow> True | _ \<Rightarrow> False)"

definition schema_properties :: "tool \<Rightarrow> json" where
  "schema_properties t = dict_get (tool_inputSchema t) ''properties'' (JObj [])"

definition well_formed_schema :: "tool \<Rightarrow> bool" where
  "well_formed_schema t =
     (case schema_properties t of
        JObj props \<Rightarrow> list_all (\<lambda>kv. is_mapping (snd kv)) props
      | _ \<Rightarrow> False)"

definition kinds_translated :: "tool \<Rightarrow> function_declaration \<Rightarrow> bool" where
  "kinds_translated t d =
     (\<forall>props k v. schema_properties t = JObj props \<and> (k, JObj v) \<in> set props \<longrightarrow>
        (\<exists>p. (k, p) \<in> set (par_properties (fd_parameters d))
           \<and> prop_type p = (case map_of v ''type'' of None \<Rightarrow> JStr ''string'' | Some ty \<Rightarrow> ty)))"



text \<open>\<^verbatim>\<open>await self.session.call_tool(name, args)\<close>: the call is logged, then returns or raises.\<close>

definition call_tool ::
  "mcp_session \<Rightarrow> string \<Rightarrow> json \<Rightarrow> world \<Rightarrow> (error + call_tool_result) \<times> world" where
  "call_tool ses name args w =
     (let w' = w\<lparr>tool_log := tool_log w @ [(name, args)]\<rparr>
      in case ses_call_tool ses (tool_log w) name args of
           ToolRaises e \<Rightarrow> (Inl e, w')
         | ToolReturns r \<Rightarrow> (Inr r, w'))"

text \<open>
  The body of \<^verbatim>\<open>for part in parts\<close> (lines 81 to 96): a part with a function call is a
  tool call whose folded result is appended; otherwise a part with a non-empty text
  appends the text. \<^verbatim>\<open>tool_response.content[0]\<close> raises on an empty content.
\<close>

definition process_part ::
  "runtime \<Rightarrow> mcp_session \<Rightarrow> part \<Rightarrow> string list \<Rightarrow> world \<Rightarrow> (error + string list) \<times> world" where
  "process_part rt ses p final_parts w =
     (case part_function_call p of
        Some fc \<Rightarrow>
          (let name = fc_name fc in
           case normalize_args rt (fc_args fc) of
             Inl e \<Rightarrow> (Inl e, w)
           | Inr args \<Rightarrow>
               (let w1 = w\<lparr>stdout := stdout w @ [PrintCalling ''tool'' name args]\<rparr> in
                case call_tool ses name args w1 of
                  (Inl e, w2) \<Rightarrow> (Inl e, w2)
                | (Inr tool_response, w2) \<Rightarrow>
                    (case ctr_content tool_response of
                       [] \<Rightarrow> (Inl IndexError, w2)
                     | item # _ \<Rightarrow>
                         (let raw = (case item of TextContent t \<Rightarrow> t | OtherContent \<Rightarrow> []);
                              res = list_result rt raw;
                              w3 = w2\<lparr>stdout := stdout w2 @ [PrintResults (JStr res)]\<rparr>
                          in (Inr (final_parts @ [''[Called '' @ name @ '': '' @ res @ '']'']), w3)))))
      | None \<Rightarrow>
          (case part_text p of
             None \<Rightarrow> (Inr final_parts, w)
           | Some t \<Rightarrow> if t \<noteq> [] then (Inr (final_parts @ [t]), w) else (Inr final_parts, w)))"

fun process_parts ::
  "runtime \<Rightarrow> mcp_session \<Rightarrow> part list \<Rightarrow> string list \<Rightarrow> world \<Rightarrow> (error + string list) \<times> world" where
  "process_parts rt ses [] final_parts w = (Inr final_parts, w)"
| "process_parts rt ses (p # ps) final_parts w =
     (case process_part rt ses p final_parts w of
        (Inl e, w') \<Rightarrow> (Inl e, w')
      | (Inr final_parts', w') \<Rightarrow> process_parts rt ses ps final_parts' w')"

text \<open>
  The body of \<^verbatim>\<open>for cand in response.candidates\<close> (lines 78 to 101): the parts when
  there are some, else the flat text of the content when it is non-empty.
\<close>

definition process_candidate ::
  "runtime \<Rightarrow> mcp_session \<Rightarrow> candidate \<Rightarrow> string list \<Rightarrow> world \<Rightarrow> (error + string list) \<times> world" where
  "process_candidate rt ses cand final_parts w =
     (let parts = (case content_parts (cand_content cand) of None \<Rightarrow> [] | Some ps \<Rightarrow> ps) in
      if parts \<noteq> [] then process_parts rt ses parts final_parts w
      else
        (let text_val = (case content_text (cand_content cand) of None \<Rightarrow> [] | Some t \<Rightarrow> t) in
         if text_val \<noteq> [] then (Inr (final_parts @ [text_val]), w) else (Inr final_parts, w)))"

fun process_candidates ::
  "runtime \<Rightarrow> mcp_session \<Rightarrow> candidate list \<Rightarrow> string list \<Rightarrow> world \<Rightarrow> (error + string list) \<times> world" where
  "process_candidates rt ses [] final_parts w = (Inr final_parts, w)"
| "process_candidates rt ses (cand # cands) final_parts w =
     (case process_candidate rt ses cand final_parts w of
        (Inl e, w') \<Rightarrow> (Inl e, w')
      | (Inr final_parts', w') \<Rightarrow> process_candidates rt ses cands final_parts' w')"

text \<open>
  \<^verbatim>\<open>MCPClient.process_query\<close>. A client that never connected has no session, and the
  first attribute access raises.
\<close>

definition mcp_process_query ::
  "runtime \<Rightarrow> model_service \<Rightarrow> mcp_client \<Rightarrow> string \<Rightarrow> world \<Rightarrow> (error + query_result) \<times> world" where
  "mcp_process_query rt service c query w =
     (case session c of
        None \<Rightarrow> (Inl AttributeError, w)
      | Some ses \<Rightarrow>
          (case ses_list_tools ses (tool_log w) of
             Inl e \<Rightarrow> (Inl e, w)
           | Inr tools \<Rightarrow>
               (case tools_schema rt tools of
                  Inl e \<Rightarrow> (Inl e, w)
                | Inr descs \<Rightarrow>
                    (case generate_content service
                            \<lparr>req_model = ''gemini-1.5-flash'', req_contents = [Query query],
                             req_tools = Some descs\<rparr> w of
                       (Inl e, w1) \<Rightarrow> (Inl e, w1)
                     | (Inr response, w1) \<Rightarrow>
                         (let um = resp_usage_metadata response;
                              prompt_tokens = prompt_token_count um;
                              completion_tokens = candidates_token_count um
                          in case process_candidates rt ses (resp_candidates response) [] w1 of
                               (Inl e, w2) \<Rightarrow> (Inl e, w2)
                             | (Inr final_parts, w2) \<Rightarrow>
                                 (Inr \<lparr>res_text = Some (strip (join ''\<newline>'' final_parts)),
                                       res_usage_metadata =
                                         \<lparr>res_prompt_token_count = prompt_tokens,
                                          res_response_token_count = completion_tokens\<rparr>\<rparr>,
                                  w2))))))"

section \<open>\<^verbatim>\<open>client2.py\<close>: the local file tools\<close>

text \<open>
  The file system is a map from absolute paths (their components; the root is \<open>[]\<close>
  and is always a directory) to files with their bytes and directories.
  \<open>fs_reads\<close> logs every path whose content is read or that a search starts from.
  Looking a path up fails with \<^verbatim>\<open>NotADirectoryError\<close> when a proper prefix of it is a
  regular file and with \<^verbatim>\<open>FileNotFoundError\<close> when nothing is there.
\<close>

definition node_at :: "(path \<rightharpoonup> node) \<Rightarrow> path \<Rightarrow> node option" where
  "node_at files p = (if p = [] then Some Dir else files p)"

fun ancestors :: "path \<Rightarrow> path list" where
  "ancestors [] = []"
| "ancestors (c # cs) = [] # map ((#) c) (ancestors cs)"

definition is_file :: "(path \<rightharpoonup> node) \<Rightarrow> path \<Rightarrow> bool" where
  "is_file files p = (case node_at files p of Some (File data) \<Rightarrow> True | _ \<Rightarrow> False)"

definition stat :: "(path \<rightharpoonup> node) \<Rightarrow> path \<Rightarrow> error + node" where
  "stat files p =
     (if list_ex (is_file files) (ancestors p) then Inl NotADirectoryError
      else case node_at files p of
             None \<Rightarrow> Inl FileNotFoundError
           | Some n \<Rightarrow> Inr n)"

text \<open>\<^verbatim>\<open>path.exists()\<close> and \<^verbatim>\<open>path.is_dir()\<close>: a failed lookup is \<^verbatim>\<open>False\<close>.\<close>

definition exists :: "(path \<rightharpoonup> node) \<Rightarrow> path \<Rightarrow> bool" where
  "exists files p = (case stat files p of Inl e \<Rightarrow> False | Inr n \<Rightarrow> True)"

definition is_dir :: "(path \<rightharpoonup> node) \<Rightarrow> path \<Rightarrow> bool" where
  "is_dir files p = (stat files p = Inr Dir)"

text \<open>\<^verbatim>\<open>resolved.is_relative_to(base)\<close>.\<close>

definition is_relative_to :: "path \<Rightarrow> path \<Rightarrow> bool" where
  "is_relative_to p base = (take (length base) p = base)"

text \<open>\<^verbatim>\<open>str(p)\<close> of an absolute path.\<close>

definition path_str :: "path \<Rightarrow> string" where
  "path_str p = (if p = [] then ''/'' else concat (map (\<lambda>c. ''/'' @ c) p))"

definition normalize_path :: "runtime \<Rightarrow> string \<Rightarrow> error + path" where
  "normalize_path rt file_path =
     (let expanded = expanduser rt file_path in
      case resolve rt expanded of
        Inl e \<Rightarrow> Inl e
      | Inr resolved \<Rightarrow>
          if \<not> is_relative_to resolved (ALLOWED_BASE rt) then Inl (PermissionError resolved)
          else Inr resolved)"

text \<open>\<^verbatim>\<open>path.read_bytes()\<close>.\<close>

definition read_bytes :: "path \<Rightarrow> world \<Rightarrow> (error + string) \<times> world" where
  "read_bytes p w =
     (let w' = w\<lparr>fs_reads := fs_reads w @ [p]\<rparr>
      in case stat (fs w) p of
           Inl e \<Rightarrow> (Inl e, w')
         | Inr Dir \<Rightarrow> (Inl IsADirectoryError, w')
         | Inr (File data) \<Rightarrow> (Inr data, w'))"

text \<open>
  Reading in text mode turns \<^verbatim>\<open>\r\n\<close> and a lone \<^verbatim>\<open>\r\<close> into \<^verbatim>\<open>\n\<close>; writing in text
  mode turns \<^verbatim>\<open>\n\<close> into \<^verbatim>\<open>os.linesep\<close>.
\<close>

fun universal_newlines :: "string \<Rightarrow> string" where
  "universal_newlines [] = []"
| "universal_newlines [c] = [if c = CHR 0x0D then CHR 0x0A else c]"
| "universal_newlines (c # d # ds) =
     (if c = CHR 0x0D \<and> d = CHR 0x0A then CHR 0x0A # universal_newlines ds
      else if c = CHR 0x0D then CHR 0x0A # universal_newlines (d # ds)
      else c # universal_newlines (d # ds))"

definition write_newlines :: "runtime \<Rightarrow> string \<Rightarrow> string" where
  "write_newlines rt s = concat (map (\<lambda>c. if c = CHR 0x0A then linesep rt else [c]) s)"

text \<open>\<^verbatim>\<open>path.read_text(encoding='utf-8')\<close>.\<close>

definition read_text :: "runtime \<Rightarrow> path \<Rightarrow> world \<Rightarrow> (error + string) \<times> world" where
  "read_text rt p w =
     (case read_bytes p w of
        (Inl e, w') \<Rightarrow> (Inl e, w')
      | (Inr data, w') \<Rightarrow>
          (case decode_utf8 rt data of
             None \<Rightarrow> (Inl UnicodeDecodeError, w')
           | Some s \<Rightarrow> (Inr (universal_newlines s), w')))"

text \<open>
  Opening a path for writing: a directory cannot be opened, an existing file is emptied,
  and a new file needs its parent to be a directory.
\<close>

definition open_for_writing :: "path \<Rightarrow> (path \<rightharpoonup> node) \<Rightarrow> error + (path \<rightharpoonup> node)" where
  "open_for_writing p files =
     (case stat files p of
        Inr Dir \<Rightarrow> Inl IsADirectoryError
      | Inr (File data) \<Rightarrow> Inr (files(p \<mapsto> File []))
      | Inl e \<Rightarrow>
          if e = FileNotFoundError \<and> is_dir files (butlast p) then Inr (files(p \<mapsto> File []))
          else Inl e)"

text \<open>
  \<^verbatim>\<open>path.write_text(data, encoding='utf-8')\<close>: the file is opened, which creates or
  empties it, then the data, with its newlines translated, is encoded and written.
\<close>

definition write_text :: "runtime \<Rightarrow> path \<Rightarrow> string \<Rightarrow> world \<Rightarrow> (error + unit) \<times> world" where
  "write_text rt p data w =
     (case open_for_writing p (fs w) of
        Inl e \<Rightarrow> (Inl e, w)
      | Inr files \<Rightarrow>
          (let w1 = w\<lparr>fs := files\<rparr> in
           case encode_utf8 rt (write_newlines rt data) of
             None \<Rightarrow> (Inl UnicodeEncodeError, w1)
           | Some bytes \<Rightarrow> (Inr (), w1\<lparr>fs := (fs w1)(p \<mapsto> File bytes)\<rparr>)))"

text \<open>\<^verbatim>\<open>os.mkdir(p)\<close>: creates the directory or raises, changing nothing.\<close>

definition os_mkdir :: "path \<Rightarrow> (path \<rightharpoonup> node) \<Rightarrow> error + (path \<rightharpoonup> node)" where
  "os_mkdir p files =
     (case stat files p of
        Inr n \<Rightarrow> Inl FileExistsError
      | Inl e \<Rightarrow>
          if e = FileNotFoundError \<and> is_dir files (butlast p) then Inr (files(p \<mapsto> Dir))
          else Inl e)"

text \<open>
  \<^verbatim>\<open>Path.mkdir(parents=..., exist_ok=True)\<close>, as \<^verbatim>\<open>pathlib\<close> has it: try \<^verbatim>\<open>os.mkdir\<close>;
  when the parent is missing and \<^verbatim>\<open>parents\<close> is set, make the parent the same way and
  then the directory itself without \<^verbatim>\<open>parents\<close>; any other error is dropped when the
  path is a directory already.
\<close>

definition mkdir_single :: "path \<Rightarrow> (path \<rightharpoonup> node) \<Rightarrow> error + (path \<rightharpoonup> node)" where
  "mkdir_single p files =
     (case os_mkdir p files of
        Inr files' \<Rightarrow> Inr files'
      | Inl e \<Rightarrow>
          if e = FileNotFoundError then Inl e
          else if is_dir files p then Inr files
          else Inl e)"

function mkdir_parents :: "path \<Rightarrow> (path \<rightharpoonup> node) \<Rightarrow> error option \<times> (path \<rightharpoonup> node)" where
  "mkdir_parents p files =
     (case os_mkdir p files of
        Inr files' \<Rightarrow> (None, files')
      | Inl e \<Rightarrow>
          if e = FileNotFoundError then
            (if p = [] then (Some e, files)
             else
               (case mkdir_parents (butlast p) files of
                  (Some e', files1) \<Rightarrow> (Some e', files1)
                | (None, files1) \<Rightarrow>
                    (case mkdir_single p files1 of
                       Inl e'' \<Rightarrow> (Some e'', files1)
                     | Inr files2 \<Rightarrow> (None, files2))))
          else if is_dir files p then (None, files)
          else (Some e, files))"
  by pat_completeness auto
termination
  by (relation "measure (\<lambda>(p, files). length p)") auto

declare mkdir_parents.simps [simp del]

text \<open>
  \<^verbatim>\<open>read_file\<close>, \<^verbatim>\<open>write_file\<close> and \<^verbatim>\<open>search_file\<close>. \<^verbatim>\<open>write_file\<close> takes the content
  as it arrives: \<^verbatim>\<open>existing + content\<close> raises when it is not a string, after the
  parent directory was made and the file read. \<^verbatim>\<open>search_file\<close> takes the extension as
  it arrives: the f-string formats any value into the pattern.
\<close>

definition read_file :: "runtime \<Rightarrow> string \<Rightarrow> world \<Rightarrow> (error + string) \<times> world" where
  "read_file rt file_path w =
     (case normalize_path rt file_path of
        Inl e \<Rightarrow> (Inl e, w)
      | Inr path \<Rightarrow>
          (case read_bytes path w of
             (Inl e, w1) \<Rightarrow> (Inl e, w1)
           | (Inr data, w1) \<Rightarrow>
               (case decode_utf8 rt data of
                  Some s \<Rightarrow> (Inr s, w1)
                | None \<Rightarrow> (Inr (b64encode rt data), w1))))"

definition write_file :: "runtime \<Rightarrow> string \<Rightarrow> json \<Rightarrow> world \<Rightarrow> (error + string) \<times> world" where
  "write_file rt file_path content w =
     (case normalize_path rt file_path of
        Inl e \<Rightarrow> (Inl e, w)
      | Inr path \<Rightarrow>
          (case mkdir_parents (butlast path) (fs w) of
             (Some e, files1) \<Rightarrow> (Inl e, w\<lparr>fs := files1\<rparr>)
           | (None, files1) \<Rightarrow>
               (let w1 = w\<lparr>fs := files1\<rparr> in
                case (if exists (fs w1) path then read_text rt path w1
                      else (Inr [], w1)) of
                  (Inl e, w2) \<Rightarrow> (Inl e, w2)
                | (Inr existing, w2) \<Rightarrow>
                    (case content of
                       JStr c \<Rightarrow>
                         (case write_text rt path (existing @ c) w2 of
                            (Inl e, w3) \<Rightarrow> (Inl e, w3)
                          | (Inr u, w3) \<Rightarrow> (Inr ''Write successful'', w3))
                     | _ \<Rightarrow> (Inl TypeError, w2)))))"

definition search_file ::
  "runtime \<Rightarrow> json \<Rightarrow> string \<Rightarrow> world \<Rightarrow> (error + string list) \<times> world" where
  "search_file rt extension search_dir w =
     (case normalize_path rt search_dir of
        Inl e \<Rightarrow> (Inl e, w)
      | Inr dirp \<Rightarrow>
          (let w1 = w\<lparr>fs_reads := fs_reads w @ [dirp]\<rparr> in
           case rglob rt (fs w) dirp extension of
             Inl e \<Rightarrow> (Inl e, w1)
           | Inr ps \<Rightarrow> (Inr (map path_str ps), w1)))"

text \<open>The function schemas \<^verbatim>\<open>func_schemas\<close> sent with every request of \<^verbatim>\<open>client2.py\<close>.\<close>

definition string_property :: "string \<Rightarrow> property_decl" where
  "string_property d = \<lparr>prop_type = JStr ''string'', prop_description = JStr d\<rparr>"

definition func_schemas :: "function_declaration list" where
  "func_schemas =
     [\<lparr>fd_name = ''read_file'',
       fd_description = Some ''Read the contents of a file'',
       fd_parameters =
         \<lparr>par_type = JStr ''object'',
          par_properties = [(''file_path'', string_property ''Path to the file'')],
          par_required = JList [JStr ''file_path'']\<rparr>\<rparr>,
      \<lparr>fd_name = ''write_file'',
       fd_description = Some ''Append content to a file'',
       fd_parameters =
         \<lparr>par_type = JStr ''object'',
          par_properties =
            [(''file_path'', string_property ''Path to the file''),
             (''content'', string_property ''Content to append'')],
          par_required = JList [JStr ''file_path'', JStr ''content'']\<rparr>\<rparr>,
      \<lparr>fd_name = ''search_file'',
       fd_description = Some ''Search for files by extension'',
       fd_parameters =
         \<lparr>par_type = JStr ''object'',
          par_properties =
            [(''extension'', string_property ''File extension''),
             (''search_dir'', string_property ''Directory to search'')],
          par_required = JList [JStr ''extension'']\<rparr>\<rparr>]"

text \<open>
  \<^verbatim>\<open>f(**args)\<close>: the arguments must be a mapping whose keys are parameters of \<^verbatim>\<open>f\<close> and
  that has every parameter without a default; otherwise the call raises
  \<^verbatim>\<open>TypeError\<close> before the body runs.
\<close>

definition bind_args ::
  "string list \<Rightarrow> string list \<Rightarrow> json \<Rightarrow> error + (string \<times> json) list" where
  "bind_args required optional args =
     (case args of
        JObj d \<Rightarrow>
          if list_all (\<lambda>k. k \<in> set (required @ optional)) (map fst d)
             \<and> list_all (\<lambda>k. map_of d k \<noteq> None) required
          then Inr d else Inl TypeError
      | _ \<Rightarrow> Inl TypeError)"

text \<open>
  The dispatch on the function's name (lines 115 to 122). A path argument that is not a
  string makes \<^verbatim>\<open>os.path.expanduser\<close> raise \<^verbatim>\<open>TypeError\<close>, the first thing each tool
  does.
\<close>

definition call_function :: "runtime \<Rightarrow> string \<Rightarrow> json \<Rightarrow> world \<Rightarrow> (error + json) \<times> world" where
  "call_function rt fname args w =
     (if fname = ''read_file'' then
        (case bind_args [''file_path''] [] args of
           Inl e \<Rightarrow> (Inl e, w)
         | Inr d \<Rightarrow>
             (case map_of d ''file_path'' of
                Some (JStr file_path) \<Rightarrow>
                  (case read_file rt file_path w of
                     (Inl e, w') \<Rightarrow> (Inl e, w')
                   | (Inr s, w') \<Rightarrow> (Inr (JStr s), w'))
              | _ \<Rightarrow> (Inl TypeError, w)))
      else if fname = ''write_file'' then
        (case bind_args [''file_path'', ''content''] [] args of
           Inl e \<Rightarrow> (Inl e, w)
         | Inr d \<Rightarrow>
             (case map_of d ''file_path'' of
                Some (JStr file_path) \<Rightarrow>
                  (case write_file rt file_path (dict_get d ''content'' JNull) w of
                     (Inl e, w') \<Rightarrow> (Inl e, w')
                   | (Inr s, w') \<Rightarrow> (Inr (JStr s), w'))
              | _ \<Rightarrow> (Inl TypeError, w)))
      else if fname = ''search_file'' then
        (case bind_args [''extension''] [''search_dir''] args of
           Inl e \<Rightarrow> (Inl e, w)
         | Inr d \<Rightarrow>
             (case dict_get d ''search_dir'' (JStr ''.'') of
                JStr search_dir \<Rightarrow>
                  (case search_file rt (dict_get d ''extension'' JNull) search_dir w of
                     (Inl e, w') \<Rightarrow> (Inl e, w')
                   | (Inr ps, w') \<Rightarrow> (Inr (JList (map JStr ps)), w'))
              | _ \<Rightarrow> (Inl TypeError, w)))
      else (Inr (JStr (''Unknown function: '' @ fname)), w))"

section \<open>\<^verbatim>\<open>client2.py\<close> and \<^verbatim>\<open>client3.py\<close>: one query\<close>

text \<open>
  \<^verbatim>\<open>response.candidates[0].content.parts[0]\<close>: indexing an empty list raises
  \<^verbatim>\<open>IndexError\<close>, indexing parts that are not there raises \<^verbatim>\<open>TypeError\<close>.
\<close>

definition first_part :: "response \<Rightarrow> error + part" where
  "first_part r =
     (case resp_candidates r of
        [] \<Rightarrow> Inl IndexError
      | cand # _ \<Rightarrow>
          (case content_parts (cand_content cand) of
             None \<Rightarrow> Inl TypeError
           | Some [] \<Rightarrow> Inl IndexError
           | Some (p # _) \<Rightarrow> Inr p))"

text \<open>\<^verbatim>\<open>GeminiClient.process_query\<close>.\<close>

definition gemini_process_query ::
  "runtime \<Rightarrow> model_service \<Rightarrow> string \<Rightarrow> world \<Rightarrow> (error + query_result) \<times> world" where
  "gemini_process_query rt service query w =
     (case generate_content service
             \<lparr>req_model = ''gemini-1.5-flash'', req_contents = [Query query],
              req_tools = Some func_schemas\<rparr> w of
        (Inl e, w1) \<Rightarrow> (Inl e, w1)
      | (Inr response, w1) \<Rightarrow>
          (let um = resp_usage_metadata response;
               prompt_tokens = prompt_token_count um;
               resp_tokens = candidates_token_count um
           in case first_part response of
                Inl e \<Rightarrow> (Inl e, w1)
              | Inr msg \<Rightarrow>
                  (case part_function_call msg of
                     Some fc \<Rightarrow>
                       (let fname = fc_name fc in
                        case normalize_args rt (fc_args fc) of
                          Inl e \<Rightarrow> (Inl e, w1)
                        | Inr args \<Rightarrow>
                            (let w2 = w1\<lparr>stdout := stdout w1 @ [PrintCalling ''function'' fname args]\<rparr> in
                             case call_function rt fname args w2 of
                               (Inl e, w3) \<Rightarrow> (Inl e, w3)
                             | (Inr result, w3) \<Rightarrow>
                                 (let w4 = w3\<lparr>stdout := stdout w3 @ [PrintResults result]\<rparr> in
                                  case generate_content service
                                         \<lparr>req_model = ''gemini-2.0-flash'',
                                          req_contents =
                                            [JsonDumps (JObj [(''name'', JStr fname), (''result'', result)])],
                                          req_tools = Some func_schemas\<rparr> w4 of
                                    (Inl e, w5) \<Rightarrow> (Inl e, w5)
                                  | (Inr follow, w5) \<Rightarrow>
                                      (let fum = resp_usage_metadata follow;
                                           prompt_tokens' = prompt_tokens + prompt_token_count fum;
                                           resp_tokens' = resp_tokens + candidates_token_count fum
                                       in case first_part follow of
                                            Inl e \<Rightarrow> (Inl e, w5)
                                          | Inr p \<Rightarrow>
                                              (Inr \<lparr>res_text = part_text p,
                                                    res_usage_metadata =
                                                      \<lparr>res_prompt_token_count = prompt_tokens',
                                                       res_response_token_count = resp_tokens'\<rparr>\<rparr>,
                                               w5)))))
                   | None \<Rightarrow>
                       (Inr \<lparr>res_text = part_text msg,
                             res_usage_metadata =
                               \<lparr>res_prompt_token_count = prompt_tokens,
                                res_response_token_count = resp_tokens\<rparr>\<rparr>,
                        w1))))"

text \<open>\<^verbatim>\<open>SimpleChatClient.process_query\<close>: one request without tools.\<close>

definition simple_process_query ::
  "model_service \<Rightarrow> string \<Rightarrow> world \<Rightarrow> (error + query_result) \<times> world" where
  "simple_process_query service query w =
     (case generate_content service
             \<lparr>req_model = ''gemini-1.5-flash'', req_contents = [Query query],
              req_tools = None\<rparr> w of
        (Inl e, w1) \<Rightarrow> (Inl e, w1)
      | (Inr response, w1) \<Rightarrow>
          (let um = resp_usage_metadata response;
               prompt_tokens = prompt_token_count um;
               resp_tokens = candidates_token_count um
           in case first_part response of
                Inl e \<Rightarrow> (Inl e, w1)
              | Inr p \<Rightarrow>
                  (Inr \<lparr>res_text = part_text p,
                        res_usage_metadata =
                          \<lparr>res_prompt_token_count = prompt_tokens,
                           res_response_token_count = resp_tokens\<rparr>\<rparr>,
                   w1)))"

section \<open>The interactive loops\<close>

text \<open>
  \<^verbatim>\<open>chat_loop\<close> reads lines until one is, stripped and lowered, \<^verbatim>\<open>quit\<close> or \<^verbatim>\<open>exit\<close>.
  The lines to come are the list \<open>lines\<close>; \<^verbatim>\<open>input\<close> on an exhausted input raises
  \<^verbatim>\<open>EOFError\<close>, outside every \<^verbatim>\<open>try\<close>. The loop returns how it ended, the lines it has
  not read, and the world.
\<close>

definition is_exit_token :: "string \<Rightarrow> bool" where
  "is_exit_token q = (lower q = ''quit'' \<or> lower q = ''exit'')"

definition print_answer :: "query_result \<Rightarrow> world \<Rightarrow> world" where
  "print_answer out w =
     (let um = res_usage_metadata out;
          total = res_prompt_token_count um + res_response_token_count um
      in w\<lparr>stdout := stdout w @
            [PrintText (res_text out),
             PrintTokens total (res_prompt_token_count um) (res_response_token_count um)]\<rparr>)"

definition prompt :: "world \<Rightarrow> world" where
  "prompt w = w\<lparr>stdout := stdout w @ [Print ''\<newline>Query: '']\<rparr>"

fun mcp_loop ::
  "runtime \<Rightarrow> model_service \<Rightarrow> mcp_client \<Rightarrow> string list \<Rightarrow> world
     \<Rightarrow> (error + unit) \<times> string list \<times> world" where
  "mcp_loop rt service c [] w = (Inl EOFError, [], prompt w)"
| "mcp_loop rt service c (line # lines) w =
     (let q = strip line in
      if is_exit_token q then (Inr (), lines, prompt w)
      else
        (case mcp_process_query rt service c q (prompt w) of
           (Inr out, w') \<Rightarrow> mcp_loop rt service c lines (print_answer out w')
         | (Inl e, w') \<Rightarrow>
             mcp_loop rt service c lines (w'\<lparr>stdout := stdout w' @ [PrintError ''\<newline>Error: '' e]\<rparr>)))"

definition mcp_chat_loop ::
  "runtime \<Rightarrow> model_service \<Rightarrow> mcp_client \<Rightarrow> string list \<Rightarrow> world
     \<Rightarrow> (error + unit) \<times> string list \<times> world" where
  "mcp_chat_loop rt service c lines w =
     mcp_loop rt service c lines
       (w\<lparr>stdout := stdout w @
           [Print ''\<newline>MCP Client Started!'', Print ''Type your queries or 'quit' to exit.'']\<rparr>)"

fun gemini_loop ::
  "runtime \<Rightarrow> model_service \<Rightarrow> string list \<Rightarrow> world \<Rightarrow> (error + unit) \<times> string list \<times> world" where
  "gemini_loop rt service [] w = (Inl EOFError, [], prompt w)"
| "gemini_loop rt service (line # lines) w =
     (let query = strip line in
      if is_exit_token query then (Inr (), lines, prompt w)
      else
        (case gemini_process_query rt service query (prompt w) of
           (Inr result, w') \<Rightarrow> gemini_loop rt service lines (print_answer result w')
         | (Inl e, w') \<Rightarrow>
             gemini_loop rt service lines (w'\<lparr>stdout := stdout w' @ [PrintError ''Error: '' e]\<rparr>)))"

definition gemini_chat_loop ::
  "runtime \<Rightarrow> model_service \<Rightarrow> string list \<Rightarrow> world \<Rightarrow> (error + unit) \<times> string list \<times> world" where
  "gemini_chat_loop rt service lines w =
     gemini_loop rt service lines
       (w\<lparr>stdout := stdout w @
           [Print ''\<newline>Gemini Client Started! (Function Calling)'',
            Print ''Type your queries or 'quit' to exit.'']\<rparr>)"

text \<open>
  \<^verbatim>\<open>SimpleChatClient.chat_loop\<close> has no \<^verbatim>\<open>try\<close>: an error of \<^verbatim>\<open>process_query\<close> leaves
  the loop.
\<close>

fun simple_loop ::
  "model_service \<Rightarrow> string list \<Rightarrow> world \<Rightarrow> (error + unit) \<times> string list \<times> world" where
  "simple_loop service [] w = (Inl EOFError, [], prompt w)"
| "simple_loop service (line # lines) w =
     (let query = strip line in
      if is_exit_token query then (Inr (), lines, prompt w)
      else
        (case simple_process_query service query (prompt w) of
           (Inr result, w') \<Rightarrow> simple_loop service lines (print_answer result w')
         | (Inl e, w') \<Rightarrow> (Inl e, lines, w')))"

definition simple_chat_loop ::
  "model_service \<Rightarrow> string list \<Rightarrow> world \<Rightarrow> (error + unit) \<times> string list \<times> world" where
  "simple_chat_loop service lines w =
     simple_loop service lines
       (w\<lparr>stdout := stdout w @
           [Print ''\<newline>Simple Chat Client Started! (No Tools)'',
            Print ''Type your queries or 'quit' to exit.'']\<rparr>)"

section \<open>Round-trips, replies and usage\<close>

text \<open>
  The exchanges a call adds to the log are its round-trips; the replies among them are
  those in which the service did not raise. \<open>usage_is_sum\<close>: the log grew by the new
  exchanges, each of them a reply, and the returned units are the totals of the replies
  taken in any order. \<open>function_call_parts\<close> counts the parts of a reply that carry a
  function call.
\<close>

definition new_exchanges :: "world \<Rightarrow> world \<Rightarrow> (request \<times> model_outcome) list" where
  "new_exchanges w w' = drop (length (model_log w)) (model_log w')"

definition replies :: "(request \<times> model_outcome) list \<Rightarrow> response list" where
  "replies exchanges =
     concat (map (\<lambda>x. case snd x of ModelReplies r \<Rightarrow> [r] | ModelRaises e \<Rightarrow> []) exchanges)"

definition total_prompt :: "response list \<Rightarrow> int" where
  "total_prompt rs = sum_list (map (\<lambda>r. prompt_token_count (resp_usage_metadata r)) rs)"

definition total_response :: "response list \<Rightarrow> int" where
  "total_response rs = sum_list (map (\<lambda>r. candidates_token_count (resp_usage_metadata r)) rs)"

definition usage_is_sum :: "world \<Rightarrow> world \<Rightarrow> query_result \<Rightarrow> bool" where
  "usage_is_sum w w' res =
     (model_log w' = model_log w @ new_exchanges w w'
      \<and> length (replies (new_exchanges w w')) = length (new_exchanges w w')
      \<and> (\<forall>rs. mset rs = mset (replies (new_exchanges w w')) \<longrightarrow>
            res_prompt_token_count (res_usage_metadata res) = total_prompt rs
          \<and> res_response_token_count (res_usage_metadata res) = total_response rs))"

definition parts_of :: "candidate \<Rightarrow> part list" where
  "parts_of cand = (case content_parts (cand_content cand) of None \<Rightarrow> [] | Some ps \<Rightarrow> ps)"



text \<open>
  A reply is text only when no part of any candidate carries a function call. Its texts
  are, candidate by candidate, the non-empty texts of the parts, or the non-empty flat
  text of a content without parts.
\<close>

definition text_only :: "response \<Rightarrow> bool" where
  "text_only r =
     list_all (\<lambda>cand. list_all (\<lambda>p. part_function_call p = None) (parts_of cand))
       (resp_candidates r)"

definition nonempty_text :: "string option \<Rightarrow> string list" where
  "nonempty_text t = (case t of None \<Rightarrow> [] | Some s \<Rightarrow> if s \<noteq> [] then [s] else [])"

definition candidate_texts :: "candidate \<Rightarrow> string list" where
  "candidate_texts cand =
     (if parts_of cand \<noteq> [] then concat (map (\<lambda>p. nonempty_text (part_text p)) (parts_of cand))
      else nonempty_text (content_text (cand_content cand)))"

definition reply_texts :: "response \<Rightarrow> string list" where
  "reply_texts r = concat (map candidate_texts (resp_candidates r))"

section \<open>A concrete scenario\<close>

text \<open>
  Replies, model services, a runtime, a world and a connected client for the worked
  examples: a service that answers with text, one that requests a tool call in every
  reply, one that requests a call and then answers; a working directory \<^verbatim>\<open>/work\<close>
  holding \<^verbatim>\<open>notes.txt\<close>; a provider with one tool.
\<close>

definition text_reply :: "string \<Rightarrow> int \<Rightarrow> int \<Rightarrow> response" where
  "text_reply t p c =
     \<lparr>resp_candidates =
        [\<lparr>cand_content =
            \<lparr>content_parts = Some [\<lparr>part_function_call = None, part_text = Some t\<rparr>],
             content_text = None\<rparr>\<rparr>],
      resp_usage_metadata = \<lparr>prompt_token_count = p, candidates_token_count = c\<rparr>\<rparr>"

definition call_reply :: "string \<Rightarrow> (string \<times> json) list \<Rightarrow> int \<Rightarrow> int \<Rightarrow> response" where
  "call_reply name args p c =
     \<lparr>resp_candidates =
        [\<lparr>cand_content =
            \<lparr>content_parts =
               Some [\<lparr>part_function_call = Some \<lparr>fc_name = name, fc_args = ArgsDict args\<rparr>,
                      part_text = None\<rparr>],
             content_text = None\<rparr>\<rparr>],
      resp_usage_metadata = \<lparr>prompt_token_count = p, candidates_token_count = c\<rparr>\<rparr>"

definition always_calls :: "string \<Rightarrow> (string \<times> json) list \<Rightarrow> model_service" where
  "always_calls name args exchanges req = ModelReplies (call_reply name args 3 5)"

definition calls_then_answers :: "string \<Rightarrow> (string \<times> json) list \<Rightarrow> string \<Rightarrow> model_service" where
  "calls_then_answers name args t exchanges req =
     (case exchanges of
        [] \<Rightarrow> ModelReplies (call_reply name args 3 5)
      | _ \<Rightarrow> ModelReplies (text_reply t 7 11))"

definition answers :: "string \<Rightarrow> model_service" where
  "answers t exchanges req = ModelReplies (text_reply t 3 5)"

definition example_runtime :: runtime where
  \<open>example_runtime =
     \<lparr>json_loads =
        (\<lambda>s. if s = ''[{"text": "a.py"}, {"text": "b.py"}]''
             then Inr (JList [JObj [(''text'', JStr ''a.py'')], JObj [(''text'', JStr ''b.py'')]])
             else if s = ''{}'' then Inr (JObj [])
             else if s = ''{"count": 2}'' then Inr (JObj [(''count'', JInt 2)])
             else if s = ''""'' then Inr (JStr [])
             else if s = ''"done"'' then Inr (JStr ''done'')
             else if s = ''[1, 2]'' then Inr (JList [JInt 1, JInt 2])
             else if s = ''42'' then Inr (JInt 42)
             else Inl JSONDecodeError),
      types_Tool = (\<lambda>descs. None),
      expanduser = (\<lambda>s. s),
      resolve =
        (\<lambda>s. if s = ''.'' then Inr [''work'']
             else if s = ''/etc/passwd'' then Inr [''etc'', ''passwd'']
             else Inr [''work'', s]),
      decode_utf8 = Some,
      encode_utf8 = Some,
      b64encode = (\<lambda>s. s),
      linesep = ''\<newline>'',
      rglob = (\<lambda>files d ext. Inr [[''work'', ''a.py''], [''work'', ''b.py'']]),
      ALLOWED_BASE = [''work'']\<rparr>\<close>

definition example_world :: world where
  "example_world =
     \<lparr>model_log = [], tool_log = [], stdout = [],
      fs = [[''work''] \<mapsto> Dir, [''work'', ''notes.txt''] \<mapsto> File ''hello''],
      fs_reads = []\<rparr>"

definition example_session :: mcp_session where
  \<open>example_session =
     \<lparr>ses_initialize = None,
      ses_list_tools =
        (\<lambda>calls. Inr [\<lparr>tool_name = ''search_file'',
                       tool_description = Some ''Search for files by extension'',
                       tool_inputSchema =
                         [(''type'', JStr ''object''),
                          (''properties'', JObj [(''extension'', JObj [(''type'', JStr ''string'')])]),
                          (''required'', JList [JStr ''extension''])]\<rparr>]),
      ses_call_tool =
        (\<lambda>calls name args.
           if name = ''search_file''
           then ToolReturns \<lparr>ctr_content = [TextContent ''[{"text": "a.py"}, {"text": "b.py"}]''],
                             ctr_isError = False\<rparr>
           else ToolReturns \<lparr>ctr_content = [TextContent (''Unknown tool: '' @ name)],
                             ctr_isError = True\<rparr>)\<rparr>\<close>

definition example_client :: mcp_client where
  "example_client =
     \<lparr>session = Some example_session,
      exit_stack =
        [StdioTransport \<lparr>sp_command = ''python'', sp_args = [''server.py'']\<rparr>, SessionContext]\<rparr>"

text \<open>
  A reply without parts that carries a flat text, the service that gives it, and a
  service that raises on every request.
\<close>

definition flat_reply :: "string \<Rightarrow> int \<Rightarrow> int \<Rightarrow> response" where
  "flat_reply t p c =
     \<lparr>resp_candidates = [\<lparr>cand_content = \<lparr>content_parts = None, content_text = Some t\<rparr>\<rparr>],
      resp_usage_metadata = \<lparr>prompt_token_count = p, candidates_token_count = c\<rparr>\<rparr>"

definition answers_flat :: "string \<Rightarrow> model_service" where
  "answers_flat t exchanges req = ModelReplies (flat_reply t 3 5)"

definition always_raises :: "error \<Rightarrow> model_service" where
  "always_raises e exchanges req = ModelRaises e"

text \<open>
  A provider whose \<^verbatim>\<open>call_tool\<close> raises on every call, and a client connected to it.
\<close>

definition broken_session :: mcp_session where
  "broken_session =
     example_session
       \<lparr>ses_call_tool := (\<lambda>calls name args. ToolRaises (McpError ''Connection closed''))\<rparr>"

definition broken_client :: mcp_client where
  "broken_client = example_client\<lparr>session := Some broken_session\<rparr>"

text \<open>
  A directory tree with a file beside the working directory, \<^verbatim>\<open>/secret.txt\<close>, and a
  subdirectory \<^verbatim>\<open>/work/sub\<close>; and a runtime whose \<^verbatim>\<open>rglob\<close> does on that tree what
  \<^verbatim>\<open>pathlib\<close> does with the pattern \<^verbatim>\<open>*/../../secret.txt\<close> from \<^verbatim>\<open>/work\<close>: the
  \<^verbatim>\<open>..\<close> components are followed, and the match is \<^verbatim>\<open>/work/sub/../../secret.txt\<close>.
\<close>

definition traversal_world :: world where
  "traversal_world =
     example_world
       \<lparr>fs := (fs example_world)
          ([''work'', ''sub''] \<mapsto> Dir, [''secret.txt''] \<mapsto> File ''s3cret'')\<rparr>"

definition traversal_runtime :: runtime where
  "traversal_runtime =
     example_runtime
       \<lparr>resolve :=
          (\<lambda>s. if s = ''/work/sub/../../secret.txt'' then Inr [''secret.txt'']
               else resolve example_runtime s),
        rglob :=
          (\<lambda>files d ext.
             if d = [''work''] \<and> ext = JStr ''/../../secret.txt''
                \<and> is_dir files [''work'', ''sub''] \<and> is_file files [''secret.txt'']
             then Inr [[''work'', ''sub'', ''..'', ''..'', ''secret.txt'']]
             else Inr [])\<rparr>"

section \<open>Properties: connecting\<close>

lemma endswith_last3:
  assumes "endswith s [a, b, c]"
  shows "drop (length s - 3) s = [a, b, c]"
  using assms by (simp add: endswith_def numeral_3_eq_3)

lemma endswith_py_not_js: "endswith s ''.py'' \<Longrightarrow> \<not> endswith s ''.js''"
proof
  assume py: "endswith s ''.py''" and js: "endswith s ''.js''"
  have "drop (length s - 3) s = ''.py''" using py by (rule endswith_last3)
  moreover have "drop (length s - 3) s = ''.js''" using js by (rule endswith_last3)
  ultimately show False by simp
qed

lemma alias_no_extension:
  "\<not> endswith ''fs-mcp-server'' ''.py''" "\<not> endswith ''fs-mcp-server'' ''.js''"
  by (simp_all add: endswith_def)

text \<open>
  C6. The dispatch rule of \<^verbatim>\<open>connect_to_server\<close>: the alias \<^verbatim>\<open>fs-mcp-server\<close> maps to
  that command with no argument, a target ending in \<^verbatim>\<open>.py\<close> to \<^verbatim>\<open>python\<close> and a
  target ending in \<^verbatim>\<open>.js\<close> to \<^verbatim>\<open>node\<close>, each with the target as the only argument,
  and the transport is spawned with exactly that command. For every other target the
  call raises the \<^verbatim>\<open>ValueError\<close> (the code's unsupported-target error) and leaves
  the client (no session, nothing on the exit stack) and the world as they were, without
  consulting the transport.
\<close>

theorem connect_dispatch:
  "resolve_command ''fs-mcp-server'' = Inr (''fs-mcp-server'', [])
   \<and> (endswith target ''.py'' \<longrightarrow> resolve_command target = Inr (''python'', [target]))
   \<and> (endswith target ''.js'' \<longrightarrow> resolve_command target = Inr (''node'', [target]))
   \<and> (resolve_command target = Inr (cmd, as) \<longrightarrow> stdio_client \<lparr>sp_command = cmd, sp_args = as\<rparr> = Inr ses \<longrightarrow>
        exit_stack (fst (snd (connect_to_server stdio_client target c w)))
          = exit_stack c @ [StdioTransport \<lparr>sp_command = cmd, sp_args = as\<rparr>, SessionContext])
   \<and> (target \<noteq> ''fs-mcp-server'' \<and> \<not> endswith target ''.py'' \<and> \<not> endswith target ''.js'' \<longrightarrow>
        (\<forall>tr. connect_to_server tr target c w =
           (Inl (ValueError ''Server script must be a .py, .js, or 'fs-mcp-server'.''), c, w)))"
proof (intro conjI impI allI)
  show "resolve_command ''fs-mcp-server'' = Inr (''fs-mcp-server'', [])"
    by (simp add: resolve_command_def)
next
  assume "endswith target ''.py''"
  then show "resolve_command target = Inr (''python'', [target])"
    using alias_no_extension(1) by (auto simp: resolve_command_def)
next
  assume js: "endswith target ''.js''"
  then have "\<not> endswith target ''.py''" using endswith_py_not_js by blast
  with js show "resolve_command target = Inr (''node'', [target])"
    using alias_no_extension(2) by (auto simp: resolve_command_def)
next
  assume "resolve_command target = Inr (cmd, as)"
    and "stdio_client \<lparr>sp_command = cmd, sp_args = as\<rparr> = Inr ses"
  then show "exit_stack (fst (snd (connect_to_server stdio_client target c w)))
      = exit_stack c @ [StdioTransport \<lparr>sp_command = cmd, sp_args = as\<rparr>, SessionContext]"
    by (simp add: connect_to_server_def Let_def split: option.split sum.split)
next
  fix tr
  assume "target \<noteq> ''fs-mcp-server'' \<and> \<not> endswith target ''.py'' \<and> \<not> endswith target ''.js''"
  then show "connect_to_server tr target c w =
      (Inl (ValueError ''Server script must be a .py, .js, or 'fs-mcp-server'.''), c, w)"
    by (simp add: connect_to_server_def resolve_command_def)
qed

theorem connect_dispatch_witness:
  "resolve_command ''server.py'' = Inr (''python'', [''server.py''])
   \<and> resolve_command ''index.js'' = Inr (''node'', [''index.js''])
   \<and> connect_to_server (\<lambda>p. Inl (McpError ''spawn'')) ''tool.rb''
        \<lparr>session = None, exit_stack = []\<rparr>
        \<lparr>model_log = [], tool_log = [], stdout = [], fs = Map.empty, fs_reads = []\<rparr>
      = (Inl (ValueError ''Server script must be a .py, .js, or 'fs-mcp-server'.''),
         \<lparr>session = None, exit_stack = []\<rparr>,
         \<lparr>model_log = [], tool_log = [], stdout = [], fs = Map.empty, fs_reads = []\<rparr>)"
proof -
  have py: "endswith ''server.py'' ''.py''" by (simp add: endswith_def)
  have js: "endswith ''index.js'' ''.js''" by (simp add: endswith_def)
  have rb: "''tool.rb'' \<noteq> ''fs-mcp-server'' \<and> \<not> endswith ''tool.rb'' ''.py''
      \<and> \<not> endswith ''tool.rb'' ''.js''" by (simp add: endswith_def)
  have a: "resolve_command ''server.py'' = Inr (''python'', [''server.py''])"
    using connect_dispatch [of "''server.py''"] py by simp
  have b: "resolve_command ''index.js'' = Inr (''node'', [''index.js''])"
    using connect_dispatch [of "''index.js''"] js by simp
  have c: "connect_to_server tr ''tool.rb'' c w =
      (Inl (ValueError ''Server script must be a .py, .js, or 'fs-mcp-server'.''), c, w)"
    for tr c w
    using connect_dispatch [of "''tool.rb''" _ _ _ _ c w] rb by simp
  show ?thesis using a b c by simp
qed

section \<open>Properties: the schema translation\<close>

lemma translate_properties_ok:
  assumes "list_all (\<lambda>kv. is_mapping (snd kv)) props"
  shows "\<exists>ps. translate_properties props = Inr ps
           \<and> ps = map (\<lambda>kv. (fst kv, \<lparr>prop_type = (case snd kv of JObj d \<Rightarrow> dict_get d ''type'' (JStr ''string'') | _ \<Rightarrow> JNull),
                 prop_description = (case snd kv of JObj d \<Rightarrow> dict_get d ''description'' (JStr []) | _ \<Rightarrow> JNull)\<rparr>)) props"
  using assms
proof (induction props)
  case Nil
  then show ?case by simp
next
  case (Cons kv props)
  obtain k v where kv: "kv = (k, v)" by (cases kv)
  from Cons.prems kv obtain d where v: "v = JObj d"
    by (cases v) (simp_all add: is_mapping_def)
  from Cons show ?case
    by (auto simp: kv v translate_property_def)
qed

lemma translate_properties_bad:
  assumes "\<not> list_all (\<lambda>kv. is_mapping (snd kv)) props"
  shows "translate_properties props = Inl AttributeError"
  using assms
proof (induction props)
  case Nil
  then show ?case by simp
next
  case (Cons kv props)
  obtain k v where kv: "kv = (k, v)" by (cases kv)
  show ?case
  proof (cases "is_mapping v")
    case True
    then obtain d where v: "v = JObj d" by (cases v) (simp_all add: is_mapping_def)
    from Cons True show ?thesis by (auto simp: kv v translate_property_def split: sum.split)
  next
    case False
    then show ?thesis by (cases v) (simp_all add: kv translate_property_def is_mapping_def)
  qed
qed

lemma translate_tool_bad:
  assumes "\<not> well_formed_schema t"
  shows "translate_tool t = Inl AttributeError"
proof (cases "schema_properties t")
  case (JObj props)
  with assms have "\<not> list_all (\<lambda>kv. is_mapping (snd kv)) props"
    by (simp add: well_formed_schema_def)
  then have "translate_properties props = Inl AttributeError" by (rule translate_properties_bad)
  with JObj show ?thesis by (simp add: translate_tool_def schema_properties_def)
qed (simp_all add: translate_tool_def schema_properties_def)

lemma translate_tool_ok:
  assumes "well_formed_schema t"
  shows "\<exists>d. translate_tool t = Inr d
      \<and> fd_name d = tool_name t
      \<and> par_required (fd_parameters d) = dict_get (tool_inputSchema t) ''required'' (JList [])
      \<and> kinds_translated t d"
proof -
  from assms obtain props where p: "schema_properties t = JObj props"
    and wf: "list_all (\<lambda>kv. is_mapping (snd kv)) props"
    by (cases "schema_properties t") (simp_all add: well_formed_schema_def)
  from translate_properties_ok [OF wf] obtain ps where
    ps: "translate_properties props = Inr ps" and
    eq: "ps = map (\<lambda>kv. (fst kv, \<lparr>prop_type = (case snd kv of JObj d \<Rightarrow> dict_get d ''type'' (JStr ''string'') | _ \<Rightarrow> JNull),
                 prop_description = (case snd kv of JObj d \<Rightarrow> dict_get d ''description'' (JStr []) | _ \<Rightarrow> JNull)\<rparr>)) props"
    by blast
  have "\<exists>p. (k, p) \<in> set ps
          \<and> prop_type p = (case map_of v ''type'' of None \<Rightarrow> JStr ''string'' | Some ty \<Rightarrow> ty)"
    if "(k, JObj v) \<in> set props" for k v
    using that unfolding eq by (force simp: dict_get_def)
  then show ?thesis using p ps
    by (simp add: translate_tool_def schema_properties_def kinds_translated_def)
qed

lemma tool_descs_ok:
  assumes "list_all well_formed_schema tools"
  shows "\<exists>decls. tool_descs tools = Inr decls
         \<and> map fd_name decls = map tool_name tools
         \<and> map (\<lambda>d. par_required (fd_parameters d)) decls
             = map (\<lambda>t. dict_get (tool_inputSchema t) ''required'' (JList [])) tools
         \<and> list_all2 kinds_translated tools decls"
  using assms
proof (induction tools)
  case Nil
  show ?case by simp
next
  case (Cons t ts)
  then have "well_formed_schema t" and wf: "list_all well_formed_schema ts" by simp_all
  from translate_tool_ok [OF this(1)] obtain d where d: "translate_tool t = Inr d
      \<and> fd_name d = tool_name t
      \<and> par_required (fd_parameters d) = dict_get (tool_inputSchema t) ''required'' (JList [])
      \<and> kinds_translated t d" ..
  from Cons.IH [OF wf] obtain ds where ds: "tool_descs ts = Inr ds
         \<and> map fd_name ds = map tool_name ts
         \<and> map (\<lambda>d. par_required (fd_parameters d)) ds
             = map (\<lambda>t. dict_get (tool_inputSchema t) ''required'' (JList [])) ts
         \<and> list_all2 kinds_translated ts ds" ..
  from d ds have "tool_descs (t # ts) = Inr (d # ds)
         \<and> map fd_name (d # ds) = map tool_name (t # ts)
         \<and> map (\<lambda>d. par_required (fd_parameters d)) (d # ds)
             = map (\<lambda>t. dict_get (tool_inputSchema t) ''required'' (JList [])) (t # ts)
         \<and> list_all2 kinds_translated (t # ts) (d # ds)"
    by simp
  then show ?case by (rule exI)
qed

lemma tool_descs_bad:
  assumes "\<not> list_all well_formed_schema tools"
  shows "tool_descs tools = Inl AttributeError"
  using assms
proof (induction tools)
  case Nil
  then show ?case by simp
next
  case (Cons t ts)
  show ?case
  proof (cases "well_formed_schema t")
    case False
    then show ?thesis by (simp add: translate_tool_bad)
  next
    case True
    with Cons.prems have "\<not> list_all well_formed_schema ts" by simp
    then have bad: "tool_descs ts = Inl AttributeError" by (rule Cons.IH)
    from translate_tool_ok [OF True] obtain d where "translate_tool t = Inr d
      \<and> fd_name d = tool_name t
      \<and> par_required (fd_parameters d) = dict_get (tool_inputSchema t) ''required'' (JList [])
      \<and> kinds_translated t d" ..
    with bad show ?thesis by simp
  qed
qed

lemma tools_schema_bad:
  assumes "\<not> list_all well_formed_schema tools"
  shows "tools_schema rt tools = Inl AttributeError"
  using tool_descs_bad [OF assms] by (simp add: tools_schema_def)

lemma tools_schema_ok:
  assumes "list_all well_formed_schema tools"
  shows "(\<exists>decls. tool_descs tools = Inr decls
         \<and> map fd_name decls = map tool_name tools
         \<and> map (\<lambda>d. par_required (fd_parameters d)) decls
             = map (\<lambda>t. dict_get (tool_inputSchema t) ''required'' (JList [])) tools
         \<and> list_all2 kinds_translated tools decls
         \<and> tools_schema rt tools
             = (case types_Tool rt decls of Some e \<Rightarrow> Inl e | None \<Rightarrow> Inr decls))"
proof -
  from tool_descs_ok [OF assms] obtain decls where d: "tool_descs tools = Inr decls
         \<and> map fd_name decls = map tool_name tools
         \<and> map (\<lambda>d. par_required (fd_parameters d)) decls
             = map (\<lambda>t. dict_get (tool_inputSchema t) ''required'' (JList [])) tools
         \<and> list_all2 kinds_translated tools decls" ..
  then have t: "tool_descs tools = Inr decls" by (rule conjunct1)
  have "tools_schema rt tools
      = (case types_Tool rt decls of Some e \<Rightarrow> Inl e | None \<Rightarrow> Inr decls)"
    by (simp add: tools_schema_def t)
  with d have "tool_descs tools = Inr decls
         \<and> map fd_name decls = map tool_name tools
         \<and> map (\<lambda>d. par_required (fd_parameters d)) decls
             = map (\<lambda>t. dict_get (tool_inputSchema t) ''required'' (JList [])) tools
         \<and> list_all2 kinds_translated tools decls
         \<and> tools_schema rt tools
             = (case types_Tool rt decls of Some e \<Rightarrow> Inl e | None \<Rightarrow> Inr decls)"
    by (intro conjI) (elim conjE, assumption)+
  then show ?thesis by (rule exI)
qed

text \<open>
  C3, as the code has it. On every catalog whose \<^verbatim>\<open>properties\<close> entries are mappings of
  mappings, lines 47 to 60 build, in order, one declaration per descriptor with the
  descriptor's name, its \<^verbatim>\<open>required\<close> entry exactly as given (the empty list when
  absent) and, for each parameter, the kind \<^verbatim>\<open>string\<close> when the parameter has no
  \<^verbatim>\<open>type\<close> entry and the entry unchanged when it has one; the translation returns
  these declarations when the SDK's validation of line 61 accepts them and raises the
  SDK's error when it does not. On every other catalog the translation raises
  \<^verbatim>\<open>AttributeError\<close>.
\<close>

theorem schema_translation:
  "(list_all well_formed_schema tools \<longrightarrow>
      (\<exists>decls. tool_descs tools = Inr decls
         \<and> map fd_name decls = map tool_name tools
         \<and> map (\<lambda>d. par_required (fd_parameters d)) decls
             = map (\<lambda>t. dict_get (tool_inputSchema t) ''required'' (JList [])) tools
         \<and> list_all2 kinds_translated tools decls
         \<and> tools_schema rt tools
             = (case types_Tool rt decls of Some e \<Rightarrow> Inl e | None \<Rightarrow> Inr decls)))
   \<and> (\<not> list_all well_formed_schema tools \<longrightarrow> tools_schema rt tools = Inl AttributeError)"
proof (intro conjI impI)
  assume "list_all well_formed_schema tools"
  then show "(\<exists>decls. tool_descs tools = Inr decls
         \<and> map fd_name decls = map tool_name tools
         \<and> map (\<lambda>d. par_required (fd_parameters d)) decls
             = map (\<lambda>t. dict_get (tool_inputSchema t) ''required'' (JList [])) tools
         \<and> list_all2 kinds_translated tools decls
         \<and> tools_schema rt tools
             = (case types_Tool rt decls of Some e \<Rightarrow> Inl e | None \<Rightarrow> Inr decls))"
    by (rule tools_schema_ok)
next
  assume "\<not> list_all well_formed_schema tools"
  then show "tools_schema rt tools = Inl AttributeError" by (rule tools_schema_bad)
qed

theorem schema_translation_witness:
  "list_all well_formed_schema
      [\<lparr>tool_name = ''read_file'', tool_description = None,
        tool_inputSchema =
          [(''properties'', JObj [(''path'', JObj [])]), (''required'', JList [JStr ''path''])]\<rparr>]
   \<and> (\<exists>decls. tool_descs [\<lparr>tool_name = ''read_file'', tool_description = None,
        tool_inputSchema =
          [(''properties'', JObj [(''path'', JObj [])]), (''required'', JList [JStr ''path''])]\<rparr>] = Inr decls
         \<and> map fd_name decls = map tool_name [\<lparr>tool_name = ''read_file'', tool_description = None,
        tool_inputSchema =
          [(''properties'', JObj [(''path'', JObj [])]), (''required'', JList [JStr ''path''])]\<rparr>]
         \<and> map (\<lambda>d. par_required (fd_parameters d)) decls
             = map (\<lambda>t. dict_get (tool_inputSchema t) ''required'' (JList [])) [\<lparr>tool_name = ''read_file'', tool_description = None,
        tool_inputSchema =
          [(''properties'', JObj [(''path'', JObj [])]), (''required'', JList [JStr ''path''])]\<rparr>]
         \<and> list_all2 kinds_translated [\<lparr>tool_name = ''read_file'', tool_description = None,
        tool_inputSchema =
          [(''properties'', JObj [(''path'', JObj [])]), (''required'', JList [JStr ''path''])]\<rparr>] decls
         \<and> tools_schema example_runtime [\<lparr>tool_name = ''read_file'', tool_description = None,
        tool_inputSchema =
          [(''properties'', JObj [(''path'', JObj [])]), (''required'', JList [JStr ''path''])]\<rparr>]
             = (case types_Tool example_runtime decls of Some e \<Rightarrow> Inl e | None \<Rightarrow> Inr decls))
   \<and> tools_schema example_runtime
        [\<lparr>tool_name = ''read_file'', tool_description = None,
        tool_inputSchema =
          [(''properties'', JObj [(''path'', JObj [])]), (''required'', JList [JStr ''path''])]\<rparr>]
     = Inr [\<lparr>fd_name = ''read_file'', fd_description = None,
             fd_parameters =
               \<lparr>par_type = JStr ''object'',
                par_properties =
                  [(''path'', \<lparr>prop_type = JStr ''string'', prop_description = JStr []\<rparr>)],
                par_required = JList [JStr ''path'']\<rparr>\<rparr>]"
  (is "?wf \<and> ?concl \<and> ?built")
proof (intro conjI)
  show wf: ?wf
    by (simp add: well_formed_schema_def schema_properties_def dict_get_def is_mapping_def)
  show ?concl
    by (rule mp [OF conjunct1 [OF schema_translation] wf])
  show ?built
    by (simp add: tools_schema_def translate_tool_def translate_property_def dict_get_def
        example_runtime_def)
qed

text \<open>
  The claim as stated fails: a property whose value is not a mapping (here the string
  \<^verbatim>\<open>"string"\<close> where \<^verbatim>\<open>{"type": "string"}\<close> was meant) makes the translation raise
  \<^verbatim>\<open>AttributeError\<close>, whatever the SDK accepts.
\<close>

theorem schema_translation_counterexample:
  "tools_schema example_runtime
     [\<lparr>tool_name = ''read_file'', tool_description = None,
       tool_inputSchema = [(''properties'', JObj [(''path'', JStr ''string'')])]\<rparr>]
     = Inl AttributeError"
  by (simp add: tools_schema_def translate_tool_def translate_property_def dict_get_def)

section \<open>Properties: folding a tool's output\<close>









lemma item_texts_strings:
  "items \<noteq> [] \<Longrightarrow> item_texts (map JStr items) = Inl AttributeError"
  by (cases items) (simp_all add: item_text_def)







section \<open>Properties: what each step changes in the world\<close>

lemma generate_content_world:
  "snd (generate_content service req w)
     = w\<lparr>model_log := model_log w @ [(req, service (model_log w) req)]\<rparr>"
  by (simp add: generate_content_def Let_def split: model_outcome.split)

lemma generate_content_result:
  "fst (generate_content service req w)
     = (case service (model_log w) req of ModelRaises e \<Rightarrow> Inl e | ModelReplies r \<Rightarrow> Inr r)"
  by (simp add: generate_content_def Let_def split: model_outcome.split)

lemma read_bytes_world: "snd (read_bytes p w) = w\<lparr>fs_reads := fs_reads w @ [p]\<rparr>"
  by (simp add: read_bytes_def Let_def split: sum.split node.split)

lemma read_text_world: "snd (read_text rt p w) = w\<lparr>fs_reads := fs_reads w @ [p]\<rparr>"
  by (simp add: read_text_def case_prod_beta read_bytes_world split: sum.split option.split)

lemma write_text_logs:
  "model_log (snd (write_text rt p d w)) = model_log w"
  "stdout (snd (write_text rt p d w)) = stdout w"
  "tool_log (snd (write_text rt p d w)) = tool_log w"
  "fs_reads (snd (write_text rt p d w)) = fs_reads w"
  by (simp_all add: write_text_def Let_def split: sum.split option.split)

lemma read_file_world:
  "snd (read_file rt p w)
     = (case normalize_path rt p of Inl e \<Rightarrow> w | Inr path \<Rightarrow> w\<lparr>fs_reads := fs_reads w @ [path]\<rparr>)"
  by (simp add: read_file_def case_prod_beta read_bytes_world split: sum.split option.split)

lemma read_file_logs:
  "model_log (snd (read_file rt p w)) = model_log w"
  "stdout (snd (read_file rt p w)) = stdout w"
  "tool_log (snd (read_file rt p w)) = tool_log w"
  "fs (snd (read_file rt p w)) = fs w"
  by (simp_all add: read_file_world split: sum.split)

lemma search_file_world:
  "snd (search_file rt ext d w)
     = (case normalize_path rt d of Inl e \<Rightarrow> w | Inr dirp \<Rightarrow> w\<lparr>fs_reads := fs_reads w @ [dirp]\<rparr>)"
  by (simp add: search_file_def Let_def split: sum.split)

lemma search_file_logs:
  "model_log (snd (search_file rt ext d w)) = model_log w"
  "stdout (snd (search_file rt ext d w)) = stdout w"
  "tool_log (snd (search_file rt ext d w)) = tool_log w"
  "fs (snd (search_file rt ext d w)) = fs w"
  by (simp_all add: search_file_world split: sum.split)

lemma write_file_logs:
  "model_log (snd (write_file rt p c w)) = model_log w"
  "stdout (snd (write_file rt p c w)) = stdout w"
  "tool_log (snd (write_file rt p c w)) = tool_log w"
  by (simp_all add: write_file_def Let_def case_prod_beta read_text_world write_text_logs
      split: sum.split option.split json.split)

lemma call_function_unknown:
  assumes "fname \<noteq> ''read_file''" "fname \<noteq> ''write_file''" "fname \<noteq> ''search_file''"
  shows "call_function rt fname args w = (Inr (JStr (''Unknown function: '' @ fname)), w)"
  using assms by (simp add: call_function_def)

lemma call_function_logs:
  "model_log (snd (call_function rt fname args w)) = model_log w
   \<and> stdout (snd (call_function rt fname args w)) = stdout w
   \<and> tool_log (snd (call_function rt fname args w)) = tool_log w"
proof (cases "fname = ''read_file''")
  case True
  then show ?thesis
    by (simp add: call_function_def case_prod_beta read_file_logs
        split: sum.split option.split json.split)
next
  case nr: False
  show ?thesis
  proof (cases "fname = ''write_file''")
    case True
    then show ?thesis
      by (simp add: call_function_def case_prod_beta write_file_logs
          split: sum.split option.split json.split)
  next
    case nw: False
    show ?thesis
    proof (cases "fname = ''search_file''")
      case True
      then show ?thesis
        by (simp add: call_function_def case_prod_beta search_file_logs
            split: sum.split option.split json.split)
    next
      case False
      with nr nw show ?thesis by (simp add: call_function_unknown)
    qed
  qed
qed

lemma call_tool_world:
  "snd (call_tool ses name args w) = w\<lparr>tool_log := tool_log w @ [(name, args)]\<rparr>"
  by (simp add: call_tool_def Let_def split: tool_outcome.split)

lemma process_part_model_log:
  "model_log (snd (process_part rt ses p fp w)) = model_log w"
  by (simp add: process_part_def Let_def case_prod_beta call_tool_world
      split: option.split sum.split list.split)


lemma process_parts_model_log:
  "model_log (snd (process_parts rt ses ps fp w)) = model_log w"
proof (induction ps arbitrary: fp w)
  case Nil
  show ?case by simp
next
  case (Cons p ps)
  show ?case
    by (simp add: case_prod_beta Cons.IH process_part_model_log split: sum.split)
qed


lemma process_candidate_model_log:
  "model_log (snd (process_candidate rt ses cand fp w)) = model_log w"
  by (simp add: process_candidate_def Let_def process_parts_model_log)


lemma process_candidates_model_log:
  "model_log (snd (process_candidates rt ses cands fp w)) = model_log w"
proof (induction cands arbitrary: fp w)
  case Nil
  show ?case by simp
next
  case (Cons cand cands)
  show ?case
    by (simp add: case_prod_beta Cons.IH process_candidate_model_log split: sum.split)
qed


section \<open>Properties: round-trips and usage\<close>

lemma gemini_log_prefix:
  "take (length (model_log w)) (model_log (snd (gemini_process_query rt service query w))) = model_log w"
  by (simp add: gemini_process_query_def Let_def case_prod_beta generate_content_world
      generate_content_result call_function_logs
      split: sum.split option.split model_outcome.split)


lemma gemini_usage:
  "fst (gemini_process_query rt service query w) = Inr res \<Longrightarrow>
     res_prompt_token_count (res_usage_metadata res)
       = total_prompt (replies (new_exchanges w (snd (gemini_process_query rt service query w))))
   \<and> res_response_token_count (res_usage_metadata res)
       = total_response (replies (new_exchanges w (snd (gemini_process_query rt service query w))))
   \<and> length (replies (new_exchanges w (snd (gemini_process_query rt service query w))))
       = length (new_exchanges w (snd (gemini_process_query rt service query w)))"
  by (auto simp add: gemini_process_query_def Let_def case_prod_beta generate_content_world
      generate_content_result call_function_logs new_exchanges_def replies_def
      total_prompt_def total_response_def
      split: sum.split_asm option.split_asm model_outcome.split_asm)

lemma simple_log_prefix:
  "take (length (model_log w)) (model_log (snd (simple_process_query service query w))) = model_log w"
  by (simp add: simple_process_query_def Let_def case_prod_beta generate_content_world
      generate_content_result split: sum.split model_outcome.split)


lemma simple_usage:
  "fst (simple_process_query service query w) = Inr res \<Longrightarrow>
     res_prompt_token_count (res_usage_metadata res)
       = total_prompt (replies (new_exchanges w (snd (simple_process_query service query w))))
   \<and> res_response_token_count (res_usage_metadata res)
       = total_response (replies (new_exchanges w (snd (simple_process_query service query w))))
   \<and> length (replies (new_exchanges w (snd (simple_process_query service query w))))
       = length (new_exchanges w (snd (simple_process_query service query w)))"
  by (auto simp add: simple_process_query_def Let_def case_prod_beta generate_content_world
      generate_content_result new_exchanges_def replies_def total_prompt_def total_response_def
      split: sum.split_asm model_outcome.split_asm)

lemma mcp_log_prefix:
  "take (length (model_log w)) (model_log (snd (mcp_process_query rt service c query w))) = model_log w"
  by (simp add: mcp_process_query_def Let_def case_prod_beta generate_content_world
      generate_content_result process_candidates_model_log
      split: sum.split option.split model_outcome.split)


lemma mcp_usage:
  "fst (mcp_process_query rt service c query w) = Inr res \<Longrightarrow>
     res_prompt_token_count (res_usage_metadata res)
       = total_prompt (replies (new_exchanges w (snd (mcp_process_query rt service c query w))))
   \<and> res_response_token_count (res_usage_metadata res)
       = total_response (replies (new_exchanges w (snd (mcp_process_query rt service c query w))))
   \<and> length (replies (new_exchanges w (snd (mcp_process_query rt service c query w))))
       = length (new_exchanges w (snd (mcp_process_query rt service c query w)))"
  by (auto simp add: mcp_process_query_def Let_def case_prod_beta generate_content_world
      generate_content_result process_candidates_model_log
      new_exchanges_def replies_def total_prompt_def total_response_def
      split: sum.split_asm option.split_asm model_outcome.split_asm)



lemma mcp_no_exchange_no_tool_call:
  "new_exchanges w (snd (mcp_process_query rt service c query w)) = [] \<Longrightarrow>
   tool_log (snd (mcp_process_query rt service c query w)) = tool_log w"
  by (auto simp add: mcp_process_query_def Let_def case_prod_beta generate_content_world
      generate_content_result process_candidates_model_log new_exchanges_def
      split: sum.split_asm option.split_asm model_outcome.split_asm)


lemma sum_list_reordered:
  fixes f :: "response \<Rightarrow> int"
  assumes "mset rs = mset rs'"
  shows "sum_list (map f rs) = sum_list (map f rs')"
proof -
  have a: "sum_list (map f rs) = sum_mset (mset (map f rs))"
    by (rule sum_mset_sum_list [symmetric])
  have b: "sum_list (map f rs') = sum_mset (mset (map f rs'))"
    by (rule sum_mset_sum_list [symmetric])
  have c: "mset (map f rs) = mset (map f rs')" using assms by simp
  show ?thesis by (simp only: a b c)
qed

lemma totals_reordered:
  assumes "mset rs = mset rs'"
  shows "total_prompt rs = total_prompt rs'" and "total_response rs = total_response rs'"
  using assms by (simp_all only: total_prompt_def total_response_def sum_list_reordered [OF assms])

lemma usage_is_sumI:
  assumes pre: "take (length (model_log w)) (model_log w') = model_log w"
    and tot: "res_prompt_token_count (res_usage_metadata res) = total_prompt (replies (new_exchanges w w'))
       \<and> res_response_token_count (res_usage_metadata res) = total_response (replies (new_exchanges w w'))
       \<and> length (replies (new_exchanges w w')) = length (new_exchanges w w')"
  shows "usage_is_sum w w' res"
  unfolding usage_is_sum_def
proof (intro conjI allI impI)
  have "take (length (model_log w)) (model_log w') @ drop (length (model_log w)) (model_log w')
      = model_log w'"
    by (rule append_take_drop_id)
  then have "model_log w @ new_exchanges w w' = model_log w'"
    by (simp only: pre new_exchanges_def)
  then show "model_log w' = model_log w @ new_exchanges w w'" by (rule sym)
next
  show "length (replies (new_exchanges w w')) = length (new_exchanges w w')"
    using tot by (elim conjE)
next
  fix rs
  assume m: "mset rs = mset (replies (new_exchanges w w'))"
  have p: "res_prompt_token_count (res_usage_metadata res) = total_prompt (replies (new_exchanges w w'))"
    using tot by (elim conjE)
  show "res_prompt_token_count (res_usage_metadata res) = total_prompt rs"
    by (simp only: p totals_reordered(1) [OF m])
next
  fix rs
  assume m: "mset rs = mset (replies (new_exchanges w w'))"
  have p: "res_response_token_count (res_usage_metadata res) = total_response (replies (new_exchanges w w'))"
    using tot by (elim conjE)
  show "res_response_token_count (res_usage_metadata res) = total_response rs"
    by (simp only: p totals_reordered(2) [OF m])
qed

text \<open>
  C2. Whenever \<^verbatim>\<open>process_query\<close> returns, in each of the three clients, the log has
  grown by the round-trips of this call only, every one of them a reply, and the
  returned prompt and response units are the sums of the units those replies report,
  whatever the order they are summed in. The totals start from this call's first reply:
  nothing of the exchanges already in the log enters them.
\<close>

theorem usage_accumulation:
  "(fst (gemini_process_query rt service query w) = Inr res \<longrightarrow>
      usage_is_sum w (snd (gemini_process_query rt service query w)) res)
   \<and> (fst (mcp_process_query rt service c query w) = Inr res \<longrightarrow>
      usage_is_sum w (snd (mcp_process_query rt service c query w)) res)
   \<and> (fst (simple_process_query service query w) = Inr res \<longrightarrow>
      usage_is_sum w (snd (simple_process_query service query w)) res)"
proof (intro conjI impI)
  assume "fst (gemini_process_query rt service query w) = Inr res"
  then show "usage_is_sum w (snd (gemini_process_query rt service query w)) res"
    by (rule usage_is_sumI [OF gemini_log_prefix gemini_usage])
next
  assume "fst (mcp_process_query rt service c query w) = Inr res"
  then show "usage_is_sum w (snd (mcp_process_query rt service c query w)) res"
    by (rule usage_is_sumI [OF mcp_log_prefix mcp_usage])
next
  assume "fst (simple_process_query service query w) = Inr res"
  then show "usage_is_sum w (snd (simple_process_query service query w)) res"
    by (rule usage_is_sumI [OF simple_log_prefix simple_usage])
qed

theorem usage_accumulation_witness:
  "fst (gemini_process_query example_runtime
         (calls_then_answers ''search_file'' [(''extension'', JStr ''.py'')] ''Found a.py, b.py'')
         ''list files'' example_world)
     = Inr \<lparr>res_text = Some ''Found a.py, b.py'',
            res_usage_metadata = \<lparr>res_prompt_token_count = 10, res_response_token_count = 16\<rparr>\<rparr>
   \<and> usage_is_sum example_world
        (snd (gemini_process_query example_runtime
          (calls_then_answers ''search_file'' [(''extension'', JStr ''.py'')] ''Found a.py, b.py'')
          ''list files'' example_world))
        \<lparr>res_text = Some ''Found a.py, b.py'',
         res_usage_metadata = \<lparr>res_prompt_token_count = 10, res_response_token_count = 16\<rparr>\<rparr>
   \<and> fst (mcp_process_query example_runtime (answers ''hello'') example_client ''hi'' example_world)
     = Inr \<lparr>res_text = Some ''hello'',
            res_usage_metadata = \<lparr>res_prompt_token_count = 3, res_response_token_count = 5\<rparr>\<rparr>
   \<and> usage_is_sum example_world
        (snd (mcp_process_query example_runtime (answers ''hello'') example_client ''hi'' example_world))
        \<lparr>res_text = Some ''hello'',
         res_usage_metadata = \<lparr>res_prompt_token_count = 3, res_response_token_count = 5\<rparr>\<rparr>
   \<and> fst (simple_process_query (answers ''hello'') ''hi'' example_world)
     = Inr \<lparr>res_text = Some ''hello'',
            res_usage_metadata = \<lparr>res_prompt_token_count = 3, res_response_token_count = 5\<rparr>\<rparr>
   \<and> usage_is_sum example_world
        (snd (simple_process_query (answers ''hello'') ''hi'' example_world))
        \<lparr>res_text = Some ''hello'',
         res_usage_metadata = \<lparr>res_prompt_token_count = 3, res_response_token_count = 5\<rparr>\<rparr>"
  (is "?g \<and> ?gu \<and> ?m \<and> ?mu \<and> ?s \<and> ?su")
proof -
  have g: ?g
    by (simp add: gemini_process_query_def generate_content_def calls_then_answers_def
        call_reply_def text_reply_def first_part_def normalize_args_def call_function_def
        bind_args_def dict_get_def search_file_def normalize_path_def example_runtime_def
        example_world_def is_relative_to_def Let_def)
  have m: ?m
    by (simp add: mcp_process_query_def generate_content_def answers_def text_reply_def
        example_client_def example_session_def example_world_def tools_schema_def example_runtime_def translate_tool_def
        translate_property_def dict_get_def process_candidate_def process_part_def
        strip_def isspace_def Let_def)
  have s: ?s
    by (simp add: simple_process_query_def generate_content_def answers_def text_reply_def
        first_part_def example_world_def Let_def)
  have gu: ?gu by (rule mp [OF conjunct1 [OF usage_accumulation] g])
  have mu: ?mu by (rule mp [OF conjunct1 [OF conjunct2 [OF usage_accumulation]] m])
  have su: ?su by (rule mp [OF conjunct2 [OF conjunct2 [OF usage_accumulation]] s])
  show ?thesis by (intro conjI g gu m mu s su)
qed

section \<open>Properties: the bound on round-trips\<close>








section \<open>Properties: a reply that is only text\<close>

lemma process_part_text:
  "part_function_call p = None \<Longrightarrow>
   process_part rt ses p fp w = (Inr (fp @ nonempty_text (part_text p)), w)"
  by (simp add: process_part_def nonempty_text_def split: option.split)

lemma process_parts_text:
  "list_all (\<lambda>p. part_function_call p = None) ps \<Longrightarrow>
   process_parts rt ses ps fp w
     = (Inr (fp @ concat (map (\<lambda>p. nonempty_text (part_text p)) ps)), w)"
  by (induction ps arbitrary: fp) (simp_all add: process_part_text)

lemma process_candidate_text:
  "list_all (\<lambda>p. part_function_call p = None) (parts_of cand) \<Longrightarrow>
   process_candidate rt ses cand fp w = (Inr (fp @ candidate_texts cand), w)"
  using process_parts_text [of "parts_of cand" rt ses fp w]
  by (simp add: process_candidate_def candidate_texts_def parts_of_def nonempty_text_def Let_def
      split: option.split)

lemma process_candidates_text:
  "list_all (\<lambda>cand. list_all (\<lambda>p. part_function_call p = None) (parts_of cand)) cands \<Longrightarrow>
   process_candidates rt ses cands fp w = (Inr (fp @ concat (map candidate_texts cands)), w)"
  by (induction cands arbitrary: fp) (simp_all add: process_candidate_text)

lemma gemini_text_reply:
  assumes "service (model_log w)
             \<lparr>req_model = ''gemini-1.5-flash'', req_contents = [Query query],
              req_tools = Some func_schemas\<rparr> = ModelReplies r"
    and "first_part r = Inr p" and "part_function_call p = None"
  shows "gemini_process_query rt service query w =
      (Inr \<lparr>res_text = part_text p,
            res_usage_metadata =
              \<lparr>res_prompt_token_count = prompt_token_count (resp_usage_metadata r),
               res_response_token_count = candidates_token_count (resp_usage_metadata r)\<rparr>\<rparr>,
       w\<lparr>model_log := model_log w @
           [(\<lparr>req_model = ''gemini-1.5-flash'', req_contents = [Query query],
              req_tools = Some func_schemas\<rparr>, ModelReplies r)]\<rparr>)"
  using assms by (simp add: gemini_process_query_def generate_content_def Let_def)

lemma simple_text_reply:
  assumes "service (model_log w)
             \<lparr>req_model = ''gemini-1.5-flash'', req_contents = [Query query],
              req_tools = None\<rparr> = ModelReplies r"
    and "first_part r = Inr p"
  shows "simple_process_query service query w =
      (Inr \<lparr>res_text = part_text p,
            res_usage_metadata =
              \<lparr>res_prompt_token_count = prompt_token_count (resp_usage_metadata r),
               res_response_token_count = candidates_token_count (resp_usage_metadata r)\<rparr>\<rparr>,
       w\<lparr>model_log := model_log w @
           [(\<lparr>req_model = ''gemini-1.5-flash'', req_contents = [Query query],
              req_tools = None\<rparr>, ModelReplies r)]\<rparr>)"
  using assms by (simp add: simple_process_query_def generate_content_def Let_def)

lemma mcp_text_reply:
  assumes "session c = Some ses" and "ses_list_tools ses (tool_log w) = Inr tools"
    and "tools_schema rt tools = Inr descs"
    and "service (model_log w)
             \<lparr>req_model = ''gemini-1.5-flash'', req_contents = [Query query],
              req_tools = Some descs\<rparr> = ModelReplies r"
    and "text_only r"
  shows "mcp_process_query rt service c query w =
      (Inr \<lparr>res_text = Some (strip (join ''\<newline>'' (reply_texts r))),
            res_usage_metadata =
              \<lparr>res_prompt_token_count = prompt_token_count (resp_usage_metadata r),
               res_response_token_count = candidates_token_count (resp_usage_metadata r)\<rparr>\<rparr>,
       w\<lparr>model_log := model_log w @
           [(\<lparr>req_model = ''gemini-1.5-flash'', req_contents = [Query query],
              req_tools = Some descs\<rparr>, ModelReplies r)]\<rparr>)"
  using assms
  by (simp add: mcp_process_query_def generate_content_def Let_def text_only_def
      process_candidates_text reply_texts_def)

text \<open>
  C5, as the code has it. When the first part of the first reply carries no function
  call, \<^verbatim>\<open>GeminiClient\<close> makes exactly one round-trip and returns that part's text
  verbatim with that reply's usage; \<^verbatim>\<open>SimpleChatClient\<close> does so for every reply that
  has a first part. When the reply is text only, \<^verbatim>\<open>MCPClient\<close> (connected, with a
  catalog that lines 46 to 62 translate without raising) makes exactly one round-trip
  and returns, with that reply's usage, the reply's non-empty texts joined by newlines
  and stripped of leading and trailing whitespace.
\<close>

theorem text_reply_round_trip:
  "(service (model_log w)
             \<lparr>req_model = ''gemini-1.5-flash'', req_contents = [Query query],
              req_tools = Some func_schemas\<rparr> = ModelReplies r
      \<and> first_part r = Inr p \<and> part_function_call p = None
    \<longrightarrow> gemini_process_query rt service query w =
      (Inr \<lparr>res_text = part_text p,
            res_usage_metadata =
              \<lparr>res_prompt_token_count = prompt_token_count (resp_usage_metadata r),
               res_response_token_count = candidates_token_count (resp_usage_metadata r)\<rparr>\<rparr>,
       w\<lparr>model_log := model_log w @
           [(\<lparr>req_model = ''gemini-1.5-flash'', req_contents = [Query query],
              req_tools = Some func_schemas\<rparr>, ModelReplies r)]\<rparr>))
   \<and> (service (model_log w)
             \<lparr>req_model = ''gemini-1.5-flash'', req_contents = [Query query],
              req_tools = None\<rparr> = ModelReplies r
      \<and> first_part r = Inr p
    \<longrightarrow> simple_process_query service query w =
      (Inr \<lparr>res_text = part_text p,
            res_usage_metadata =
              \<lparr>res_prompt_token_count = prompt_token_count (resp_usage_metadata r),
               res_response_token_count = candidates_token_count (resp_usage_metadata r)\<rparr>\<rparr>,
       w\<lparr>model_log := model_log w @
           [(\<lparr>req_model = ''gemini-1.5-flash'', req_contents = [Query query],
              req_tools = None\<rparr>, ModelReplies r)]\<rparr>))
   \<and> (session c = Some ses \<and> ses_list_tools ses (tool_log w) = Inr tools
      \<and> tools_schema rt tools = Inr descs
      \<and> service (model_log w)
             \<lparr>req_model = ''gemini-1.5-flash'', req_contents = [Query query],
              req_tools = Some descs\<rparr> = ModelReplies r
      \<and> text_only r
    \<longrightarrow> mcp_process_query rt service c query w =
      (Inr \<lparr>res_text = Some (strip (join ''\<newline>'' (reply_texts r))),
            res_usage_metadata =
              \<lparr>res_prompt_token_count = prompt_token_count (resp_usage_metadata r),
               res_response_token_count = candidates_token_count (resp_usage_metadata r)\<rparr>\<rparr>,
       w\<lparr>model_log := model_log w @
           [(\<lparr>req_model = ''gemini-1.5-flash'', req_contents = [Query query],
              req_tools = Some descs\<rparr>, ModelReplies r)]\<rparr>))"
proof (intro conjI impI)
  assume "service (model_log w)
             \<lparr>req_model = ''gemini-1.5-flash'', req_contents = [Query query],
              req_tools = Some func_schemas\<rparr> = ModelReplies r
      \<and> first_part r = Inr p \<and> part_function_call p = None"
  then show "gemini_process_query rt service query w =
      (Inr \<lparr>res_text = part_text p,
            res_usage_metadata =
              \<lparr>res_prompt_token_count = prompt_token_count (resp_usage_metadata r),
               res_response_token_count = candidates_token_count (resp_usage_metadata r)\<rparr>\<rparr>,
       w\<lparr>model_log := model_log w @
           [(\<lparr>req_model = ''gemini-1.5-flash'', req_contents = [Query query],
              req_tools = Some func_schemas\<rparr>, ModelReplies r)]\<rparr>)"
    using gemini_text_reply by (elim conjE)
next
  assume "service (model_log w)
             \<lparr>req_model = ''gemini-1.5-flash'', req_contents = [Query query],
              req_tools = None\<rparr> = ModelReplies r
      \<and> first_part r = Inr p"
  then show "simple_process_query service query w =
      (Inr \<lparr>res_text = part_text p,
            res_usage_metadata =
              \<lparr>res_prompt_token_count = prompt_token_count (resp_usage_metadata r),
               res_response_token_count = candidates_token_count (resp_usage_metadata r)\<rparr>\<rparr>,
       w\<lparr>model_log := model_log w @
           [(\<lparr>req_model = ''gemini-1.5-flash'', req_contents = [Query query],
              req_tools = None\<rparr>, ModelReplies r)]\<rparr>)"
    using simple_text_reply by (elim conjE)
next
  assume "session c = Some ses \<and> ses_list_tools ses (tool_log w) = Inr tools
      \<and> tools_schema rt tools = Inr descs
      \<and> service (model_log w)
             \<lparr>req_model = ''gemini-1.5-flash'', req_contents = [Query query],
              req_tools = Some descs\<rparr> = ModelReplies r
      \<and> text_only r"
  then show "mcp_process_query rt service c query w =
      (Inr \<lparr>res_text = Some (strip (join ''\<newline>'' (reply_texts r))),
            res_usage_metadata =
              \<lparr>res_prompt_token_count = prompt_token_count (resp_usage_metadata r),
               res_response_token_count = candidates_token_count (resp_usage_metadata r)\<rparr>\<rparr>,
       w\<lparr>model_log := model_log w @
           [(\<lparr>req_model = ''gemini-1.5-flash'', req_contents = [Query query],
              req_tools = Some descs\<rparr>, ModelReplies r)]\<rparr>)"
    using mcp_text_reply by (elim conjE)
qed

theorem text_reply_round_trip_witness:
  "((answers ''hello'') (model_log example_world)
             \<lparr>req_model = ''gemini-1.5-flash'', req_contents = [Query ''hi''],
              req_tools = Some func_schemas\<rparr> = ModelReplies (text_reply ''hello'' 3 5)
      \<and> first_part (text_reply ''hello'' 3 5) = Inr \<lparr>part_function_call = None, part_text = Some ''hello''\<rparr> \<and> part_function_call \<lparr>part_function_call = None, part_text = Some ''hello''\<rparr> = None)
   \<and> gemini_process_query example_runtime (answers ''hello'') ''hi'' example_world =
      (Inr \<lparr>res_text = part_text \<lparr>part_function_call = None, part_text = Some ''hello''\<rparr>,
            res_usage_metadata =
              \<lparr>res_prompt_token_count = prompt_token_count (resp_usage_metadata (text_reply ''hello'' 3 5)),
               res_response_token_count = candidates_token_count (resp_usage_metadata (text_reply ''hello'' 3 5))\<rparr>\<rparr>,
       example_world\<lparr>model_log := model_log example_world @
           [(\<lparr>req_model = ''gemini-1.5-flash'', req_contents = [Query ''hi''],
              req_tools = Some func_schemas\<rparr>, ModelReplies (text_reply ''hello'' 3 5))]\<rparr>)
   \<and> ((answers ''hello'') (model_log example_world)
             \<lparr>req_model = ''gemini-1.5-flash'', req_contents = [Query ''hi''],
              req_tools = None\<rparr> = ModelReplies (text_reply ''hello'' 3 5)
      \<and> first_part (text_reply ''hello'' 3 5) = Inr \<lparr>part_function_call = None, part_text = Some ''hello''\<rparr>)
   \<and> simple_process_query (answers ''hello'') ''hi'' example_world =
      (Inr \<lparr>res_text = part_text \<lparr>part_function_call = None, part_text = Some ''hello''\<rparr>,
            res_usage_metadata =
              \<lparr>res_prompt_token_count = prompt_token_count (resp_usage_metadata (text_reply ''hello'' 3 5)),
               res_response_token_count = candidates_token_count (resp_usage_metadata (text_reply ''hello'' 3 5))\<rparr>\<rparr>,
       example_world\<lparr>model_log := model_log example_world @
           [(\<lparr>req_model = ''gemini-1.5-flash'', req_contents = [Query ''hi''],
              req_tools = None\<rparr>, ModelReplies (text_reply ''hello'' 3 5))]\<rparr>)
   \<and> (session example_client = Some example_session \<and> ses_list_tools example_session (tool_log example_world) = Inr [\<lparr>tool_name = ''search_file'',
                       tool_description = Some ''Search for files by extension'',
                       tool_inputSchema =
                         [(''type'', JStr ''object''),
                          (''properties'', JObj [(''extension'', JObj [(''type'', JStr ''string'')])]),
                          (''required'', JList [JStr ''extension''])]\<rparr>]
      \<and> tools_schema example_runtime [\<lparr>tool_name = ''search_file'',
                       tool_description = Some ''Search for files by extension'',
                       tool_inputSchema =
                         [(''type'', JStr ''object''),
                          (''properties'', JObj [(''extension'', JObj [(''type'', JStr ''string'')])]),
                          (''required'', JList [JStr ''extension''])]\<rparr>] = Inr [\<lparr>fd_name = ''search_file'',
                   fd_description = Some ''Search for files by extension'',
                   fd_parameters =
                     \<lparr>par_type = JStr ''object'',
                      par_properties =
                        [(''extension'', \<lparr>prop_type = JStr ''string'', prop_description = JStr []\<rparr>)],
                      par_required = JList [JStr ''extension'']\<rparr>\<rparr>]
      \<and> (answers ''hello'') (model_log example_world)
             \<lparr>req_model = ''gemini-1.5-flash'', req_contents = [Query ''hi''],
              req_tools = Some [\<lparr>fd_name = ''search_file'',
                   fd_description = Some ''Search for files by extension'',
                   fd_parameters =
                     \<lparr>par_type = JStr ''object'',
                      par_properties =
                        [(''extension'', \<lparr>prop_type = JStr ''string'', prop_description = JStr []\<rparr>)],
                      par_required = JList [JStr ''extension'']\<rparr>\<rparr>]\<rparr> = ModelReplies (text_reply ''hello'' 3 5)
      \<and> text_only (text_reply ''hello'' 3 5))
   \<and> mcp_process_query example_runtime (answers ''hello'') example_client ''hi'' example_world =
      (Inr \<lparr>res_text = Some (strip (join ''\<newline>'' (reply_texts (text_reply ''hello'' 3 5)))),
            res_usage_metadata =
              \<lparr>res_prompt_token_count = prompt_token_count (resp_usage_metadata (text_reply ''hello'' 3 5)),
               res_response_token_count = candidates_token_count (resp_usage_metadata (text_reply ''hello'' 3 5))\<rparr>\<rparr>,
       example_world\<lparr>model_log := model_log example_world @
           [(\<lparr>req_model = ''gemini-1.5-flash'', req_contents = [Query ''hi''],
              req_tools = Some [\<lparr>fd_name = ''search_file'',
                   fd_description = Some ''Search for files by extension'',
                   fd_parameters =
                     \<lparr>par_type = JStr ''object'',
                      par_properties =
                        [(''extension'', \<lparr>prop_type = JStr ''string'', prop_description = JStr []\<rparr>)],
                      par_required = JList [JStr ''extension'']\<rparr>\<rparr>]\<rparr>, ModelReplies (text_reply ''hello'' 3 5))]\<rparr>)"
  (is "?gh \<and> ?gc \<and> ?sh \<and> ?sc \<and> ?mh \<and> ?mc")
proof -
  note inst = text_reply_round_trip [where service = "answers ''hello''" and w = example_world
      and query = "''hi''" and r = "text_reply ''hello'' 3 5"
      and p = "\<lparr>part_function_call = None, part_text = Some ''hello''\<rparr>"
      and rt = example_runtime and c = example_client and ses = example_session
      and tools = "[\<lparr>tool_name = ''search_file'',
                       tool_description = Some ''Search for files by extension'',
                       tool_inputSchema =
                         [(''type'', JStr ''object''),
                          (''properties'', JObj [(''extension'', JObj [(''type'', JStr ''string'')])]),
                          (''required'', JList [JStr ''extension''])]\<rparr>]"
      and descs = "[\<lparr>fd_name = ''search_file'',
                   fd_description = Some ''Search for files by extension'',
                   fd_parameters =
                     \<lparr>par_type = JStr ''object'',
                      par_properties =
                        [(''extension'', \<lparr>prop_type = JStr ''string'', prop_description = JStr []\<rparr>)],
                      par_required = JList [JStr ''extension'']\<rparr>\<rparr>]"]
  have gh: ?gh by (simp add: answers_def text_reply_def first_part_def)
  have sh: ?sh by (simp add: answers_def text_reply_def first_part_def)
  have mh: ?mh
    by (simp add: answers_def text_reply_def example_client_def example_session_def
        tools_schema_def example_runtime_def translate_tool_def translate_property_def
        dict_get_def text_only_def parts_of_def)
  have gc: ?gc by (rule mp [OF conjunct1 [OF inst] gh])
  have sc: ?sc by (rule mp [OF conjunct1 [OF conjunct2 [OF inst]] sh])
  have mc: ?mc by (rule mp [OF conjunct2 [OF conjunct2 [OF inst]] mh])
  show ?thesis by (intro conjI gh gc sh sc mh mc)
qed

text \<open>
  The claim as stated fails for \<^verbatim>\<open>MCPClient\<close>: the reply text \<^verbatim>\<open>" hello"\<close> is returned
  as \<^verbatim>\<open>"hello"\<close>, not verbatim.
\<close>

theorem text_reply_round_trip_counterexample:
  "fst (mcp_process_query example_runtime (answers '' hello'') example_client ''hi'' example_world)
     = Inr \<lparr>res_text = Some ''hello'',
            res_usage_metadata = \<lparr>res_prompt_token_count = 3, res_response_token_count = 5\<rparr>\<rparr>"
  by (simp add: mcp_process_query_def generate_content_def answers_def text_reply_def
      example_client_def example_session_def example_world_def tools_schema_def example_runtime_def translate_tool_def
      translate_property_def dict_get_def process_candidate_def process_part_def
      strip_def isspace_def Let_def)

section \<open>Properties: tool calls that fail\<close>

lemma gemini_unknown_function:
  assumes "service (model_log w)
             \<lparr>req_model = ''gemini-1.5-flash'', req_contents = [Query query],
              req_tools = Some func_schemas\<rparr> = ModelReplies r"
    and "first_part r = Inr p" and "part_function_call p = Some fc"
    and "normalize_args rt (fc_args fc) = Inr args"
    and "fc_name fc \<noteq> ''read_file''" and "fc_name fc \<noteq> ''write_file''"
    and "fc_name fc \<noteq> ''search_file''"
  shows "new_exchanges w (snd (gemini_process_query rt service query w)) =
      [(\<lparr>req_model = ''gemini-1.5-flash'', req_contents = [Query query],
          req_tools = Some func_schemas\<rparr>, ModelReplies r),
       (\<lparr>req_model = ''gemini-2.0-flash'',
          req_contents =
            [JsonDumps (JObj [(''name'', JStr (fc_name fc)),
                              (''result'', JStr (''Unknown function: '' @ fc_name fc))])],
          req_tools = Some func_schemas\<rparr>,
        service
          (model_log w @
             [(\<lparr>req_model = ''gemini-1.5-flash'', req_contents = [Query query],
                 req_tools = Some func_schemas\<rparr>, ModelReplies r)])
          \<lparr>req_model = ''gemini-2.0-flash'',
            req_contents =
              [JsonDumps (JObj [(''name'', JStr (fc_name fc)),
                                (''result'', JStr (''Unknown function: '' @ fc_name fc))])],
            req_tools = Some func_schemas\<rparr>)]"
  using assms
  by (simp add: gemini_process_query_def Let_def case_prod_beta generate_content_world
      generate_content_result call_function_unknown new_exchanges_def
      split: sum.split model_outcome.split)

lemma gemini_tool_raises:
  assumes "service (model_log w)
             \<lparr>req_model = ''gemini-1.5-flash'', req_contents = [Query query],
              req_tools = Some func_schemas\<rparr> = ModelReplies r"
    and "first_part r = Inr p" and "part_function_call p = Some fc"
    and "normalize_args rt (fc_args fc) = Inr args"
    and "fst (call_function rt (fc_name fc) args
           (w\<lparr>model_log := model_log w @
                [(\<lparr>req_model = ''gemini-1.5-flash'', req_contents = [Query query],
                    req_tools = Some func_schemas\<rparr>, ModelReplies r)],
              stdout := stdout w @ [PrintCalling ''function'' (fc_name fc) args]\<rparr>)) = Inl e"
  shows "fst (gemini_process_query rt service query w) = Inl e
     \<and> length (new_exchanges w (snd (gemini_process_query rt service query w))) = 1"
  using assms
  by (simp add: gemini_process_query_def Let_def case_prod_beta generate_content_world
      generate_content_result call_function_logs new_exchanges_def)

lemma process_part_error_result:
  assumes "part_function_call p = Some fc"
    and "normalize_args rt (fc_args fc) = Inr args"
    and "ses_call_tool ses (tool_log w) (fc_name fc) args
           = ToolReturns \<lparr>ctr_content = TextContent raw # rest, ctr_isError = True\<rparr>"
  shows "fst (process_part rt ses p final_parts w)
           = Inr (final_parts @ [''[Called '' @ fc_name fc @ '': '' @ list_result rt raw @ '']''])"
  using assms by (simp add: process_part_def call_tool_def Let_def)

lemma process_part_tool_raises:
  assumes "part_function_call p = Some fc"
    and "normalize_args rt (fc_args fc) = Inr args"
    and "ses_call_tool ses (tool_log w) (fc_name fc) args = ToolRaises e"
  shows "fst (process_part rt ses p final_parts w) = Inl e"
    and "fst (process_parts rt ses (p # ps) final_parts w) = Inl e"
  using assms by (simp_all add: process_part_def call_tool_def Let_def)

lemma process_parts_after_text:
  "list_all (\<lambda>p. part_function_call p = None) pre \<Longrightarrow>
   process_parts rt ses (pre @ rest) fp w
     = process_parts rt ses rest (fp @ concat (map (\<lambda>p. nonempty_text (part_text p)) pre)) w"
  by (induction pre arbitrary: fp) (simp_all add: process_part_text)

lemma process_part_raises_world:
  assumes "part_function_call p = Some fc"
    and "normalize_args rt (fc_args fc) = Inr args"
    and "ses_call_tool ses (tool_log w) (fc_name fc) args = ToolRaises e"
  shows "fst (process_part rt ses p fp w) = Inl e"
  using assms by (simp add: process_part_def call_tool_def Let_def)

lemma process_candidates_tool_raises:
  assumes "cands = cand # others" and "parts_of cand = pre @ p # post"
    and "list_all (\<lambda>p. part_function_call p = None) pre"
    and "part_function_call p = Some fc"
    and "normalize_args rt (fc_args fc) = Inr args"
    and "ses_call_tool ses (tool_log w) (fc_name fc) args = ToolRaises e"
  shows "fst (process_candidates rt ses cands fp w) = Inl e"
proof -
  have ne: "parts_of cand \<noteq> []" using assms(2) by simp
  have "fst (process_part rt ses p fp' w) = Inl e" for fp'
    using assms(4-6) by (rule process_part_raises_world)
  then have "fst (process_parts rt ses (p # post) fp' w) = Inl e" for fp'
    by (simp add: case_prod_beta)
  then have "fst (process_parts rt ses (parts_of cand) fp w) = Inl e"
    by (simp add: assms(2) process_parts_after_text [OF assms(3)])
  then have "fst (process_candidate rt ses cand fp w) = Inl e"
    using ne by (simp add: process_candidate_def parts_of_def Let_def)
  then show ?thesis by (simp add: assms(1) case_prod_beta)
qed

lemma mcp_tool_raises:
  assumes "session c = Some ses" and "ses_list_tools ses (tool_log w) = Inr tools"
    and "tools_schema rt tools = Inr descs"
    and "service (model_log w)
             \<lparr>req_model = ''gemini-1.5-flash'', req_contents = [Query query],
              req_tools = Some descs\<rparr> = ModelReplies r"
    and "resp_candidates r = cand # others" and "parts_of cand = pre @ p # post"
    and "list_all (\<lambda>p. part_function_call p = None) pre"
    and "part_function_call p = Some fc"
    and "normalize_args rt (fc_args fc) = Inr args"
    and "ses_call_tool ses (tool_log w) (fc_name fc) args = ToolRaises e"
  shows "fst (mcp_process_query rt service c query w) = Inl e"
proof -
  have "fst (process_candidates rt ses (resp_candidates r) []
          (w\<lparr>model_log := model_log w @
              [(\<lparr>req_model = ''gemini-1.5-flash'', req_contents = [Query query],
                 req_tools = Some descs\<rparr>, ModelReplies r)]\<rparr>)) = Inl e"
    using assms(5-10) by (intro process_candidates_tool_raises) simp_all
  then show ?thesis
    using assms(1-4)
    by (simp add: mcp_process_query_def generate_content_def Let_def case_prod_beta)
qed

lemma process_parts_error_result:
  assumes "part_function_call p = Some fc"
    and "normalize_args rt (fc_args fc) = Inr args"
    and "ses_call_tool ses (tool_log w) (fc_name fc) args
           = ToolReturns \<lparr>ctr_content = TextContent raw # rest, ctr_isError = True\<rparr>"
    and "list_all (\<lambda>p. part_function_call p = None) pre"
    and "list_all (\<lambda>p. part_function_call p = None) ps"
  shows "fst (process_parts rt ses (pre @ p # ps) fp w)
     = Inr (fp @ concat (map (\<lambda>p. nonempty_text (part_text p)) pre)
              @ [''[Called '' @ fc_name fc @ '': '' @ list_result rt raw @ '']'']
              @ concat (map (\<lambda>p. nonempty_text (part_text p)) ps))"
  using assms(1-3,5)
  by (simp add: process_parts_after_text [OF assms(4)] process_part_def call_tool_def
      Let_def process_parts_text)

lemma mcp_error_result:
  assumes "session c = Some ses" and "ses_list_tools ses (tool_log w) = Inr tools"
    and "tools_schema rt tools = Inr descs"
    and "service (model_log w)
             \<lparr>req_model = ''gemini-1.5-flash'', req_contents = [Query query],
              req_tools = Some descs\<rparr> = ModelReplies r"
    and "resp_candidates r = [cand]" and "parts_of cand = pre @ p # ps"
    and "list_all (\<lambda>p. part_function_call p = None) pre"
    and "part_function_call p = Some fc"
    and "normalize_args rt (fc_args fc) = Inr args"
    and "ses_call_tool ses (tool_log w) (fc_name fc) args
           = ToolReturns \<lparr>ctr_content = TextContent raw # rest, ctr_isError = True\<rparr>"
    and "list_all (\<lambda>p. part_function_call p = None) ps"
  shows "fst (mcp_process_query rt service c query w)
     = Inr \<lparr>res_text =
              Some (strip (join ''\<newline>''
                (concat (map (\<lambda>p. nonempty_text (part_text p)) pre)
                 @ [''[Called '' @ fc_name fc @ '': '' @ list_result rt raw @ '']'']
                 @ concat (map (\<lambda>p. nonempty_text (part_text p)) ps)))),
            res_usage_metadata =
              \<lparr>res_prompt_token_count = prompt_token_count (resp_usage_metadata r),
               res_response_token_count = candidates_token_count (resp_usage_metadata r)\<rparr>\<rparr>"
proof -
  let ?w1 = "w\<lparr>model_log := model_log w @
              [(\<lparr>req_model = ''gemini-1.5-flash'', req_contents = [Query query],
                 req_tools = Some descs\<rparr>, ModelReplies r)]\<rparr>"
  let ?texts = "concat (map (\<lambda>p. nonempty_text (part_text p)) pre)
              @ [''[Called '' @ fc_name fc @ '': '' @ list_result rt raw @ '']'']
              @ concat (map (\<lambda>p. nonempty_text (part_text p)) ps)"
  have ne: "parts_of cand \<noteq> []" using assms(6) by simp
  have "fst (process_parts rt ses (pre @ p # ps) [] ?w1) = Inr ([] @ ?texts)"
    using assms(8-10,7,11) by (intro process_parts_error_result) simp_all
  then have "fst (process_parts rt ses (parts_of cand) [] ?w1) = Inr ?texts"
    by (simp add: assms(6))
  then have "fst (process_candidate rt ses cand [] ?w1) = Inr ?texts"
    using ne by (simp add: process_candidate_def parts_of_def Let_def)
  then have "fst (process_candidates rt ses (resp_candidates r) [] ?w1) = Inr ?texts"
    by (simp add: assms(5) case_prod_beta split: sum.split)
  then show ?thesis
    using assms(1-4)
    by (simp add: mcp_process_query_def generate_content_def Let_def case_prod_beta
        split: sum.split)
qed

lemma gemini_unknown_function_result:
  assumes "service (model_log w)
             \<lparr>req_model = ''gemini-1.5-flash'', req_contents = [Query query],
              req_tools = Some func_schemas\<rparr> = ModelReplies r"
    and "first_part r = Inr p" and "part_function_call p = Some fc"
    and "normalize_args rt (fc_args fc) = Inr args"
    and "fc_name fc \<noteq> ''read_file''" and "fc_name fc \<noteq> ''write_file''"
    and "fc_name fc \<noteq> ''search_file''"
  shows "fst (gemini_process_query rt service query w) =
      (case service
              (model_log w @
                 [(\<lparr>req_model = ''gemini-1.5-flash'', req_contents = [Query query],
                     req_tools = Some func_schemas\<rparr>, ModelReplies r)])
              \<lparr>req_model = ''gemini-2.0-flash'',
                req_contents =
                  [JsonDumps (JObj [(''name'', JStr (fc_name fc)),
                                    (''result'', JStr (''Unknown function: '' @ fc_name fc))])],
                req_tools = Some func_schemas\<rparr> of
         ModelRaises e \<Rightarrow> Inl e
       | ModelReplies follow \<Rightarrow>
           (case first_part follow of
              Inl e \<Rightarrow> Inl e
            | Inr q \<Rightarrow>
                Inr \<lparr>res_text = part_text q,
                     res_usage_metadata =
                       \<lparr>res_prompt_token_count =
                          prompt_token_count (resp_usage_metadata r)
                            + prompt_token_count (resp_usage_metadata follow),
                        res_response_token_count =
                          candidates_token_count (resp_usage_metadata r)
                            + candidates_token_count (resp_usage_metadata follow)\<rparr>\<rparr>))"
  using assms
  by (simp add: gemini_process_query_def Let_def case_prod_beta generate_content_world
      generate_content_result call_function_unknown
      split: sum.split model_outcome.split)

text \<open>
  C4, as the code has it. A function name that \<^verbatim>\<open>GeminiClient\<close> does not dispatch on
  does not raise: the call returns the placeholder \<^verbatim>\<open>Unknown function: name\<close> and leaves
  the world as it was, the placeholder is sent to the model in the follow-up request, and
  \<^verbatim>\<open>process_query\<close> returns what the follow-up reply gives. A result that the provider
  of \<^verbatim>\<open>MCPClient\<close> flags as an error is folded like any other result: in the text that
  \<^verbatim>\<open>process_query\<close> returns, \<^verbatim>\<open>[Called name: text]\<close> stands between the texts of the
  parts before and after the call. An exception is not caught: when a local tool raises,
  \<^verbatim>\<open>GeminiClient.process_query\<close> raises that error after its single round-trip, and
  when \<^verbatim>\<open>call_tool\<close> raises at the first function call of the first candidate,
  \<^verbatim>\<open>MCPClient.process_query\<close> raises that error.
\<close>

theorem tool_failures:
  "(service (model_log w)
            \<lparr>req_model = ''gemini-1.5-flash'', req_contents = [Query query],
             req_tools = Some func_schemas\<rparr> = ModelReplies r
      \<and> first_part r = Inr p \<and> part_function_call p = Some fc
      \<and> normalize_args rt (fc_args fc) = Inr args
      \<and> fc_name fc \<noteq> ''read_file'' \<and> fc_name fc \<noteq> ''write_file''
      \<and> fc_name fc \<noteq> ''search_file''
      \<longrightarrow> call_function rt (fc_name fc) args
          (w\<lparr>model_log := model_log w @ [(\<lparr>req_model = ''gemini-1.5-flash'', req_contents = [Query query],
             req_tools = Some func_schemas\<rparr>, ModelReplies r)],
                stdout := stdout w @ [PrintCalling ''function'' (fc_name fc) args]\<rparr>)
        = (Inr (JStr (''Unknown function: '' @ fc_name fc)),
           (w\<lparr>model_log := model_log w @ [(\<lparr>req_model = ''gemini-1.5-flash'', req_contents = [Query query],
             req_tools = Some func_schemas\<rparr>, ModelReplies r)],
                stdout := stdout w @ [PrintCalling ''function'' (fc_name fc) args]\<rparr>))
        \<and> new_exchanges w (snd (gemini_process_query rt service query w)) =
        [(\<lparr>req_model = ''gemini-1.5-flash'', req_contents = [Query query],
             req_tools = Some func_schemas\<rparr>, ModelReplies r),
         (\<lparr>req_model = ''gemini-2.0-flash'',
             req_contents =
               [JsonDumps (JObj [(''name'', JStr (fc_name fc)),
                                 (''result'', JStr (''Unknown function: '' @ fc_name fc))])],
             req_tools = Some func_schemas\<rparr>,
          service (model_log w @ [(\<lparr>req_model = ''gemini-1.5-flash'', req_contents = [Query query],
             req_tools = Some func_schemas\<rparr>, ModelReplies r)])
            \<lparr>req_model = ''gemini-2.0-flash'',
             req_contents =
               [JsonDumps (JObj [(''name'', JStr (fc_name fc)),
                                 (''result'', JStr (''Unknown function: '' @ fc_name fc))])],
             req_tools = Some func_schemas\<rparr>)]
        \<and> fst (gemini_process_query rt service query w) =
        (case service (model_log w @ [(\<lparr>req_model = ''gemini-1.5-flash'', req_contents = [Query query],
             req_tools = Some func_schemas\<rparr>, ModelReplies r)])
            \<lparr>req_model = ''gemini-2.0-flash'',
             req_contents =
               [JsonDumps (JObj [(''name'', JStr (fc_name fc)),
                                 (''result'', JStr (''Unknown function: '' @ fc_name fc))])],
             req_tools = Some func_schemas\<rparr> of
           ModelRaises e \<Rightarrow> Inl e
         | ModelReplies follow \<Rightarrow>
             (case first_part follow of
                Inl e \<Rightarrow> Inl e
              | Inr q \<Rightarrow>
                  Inr \<lparr>res_text = part_text q,
                       res_usage_metadata =
                         \<lparr>res_prompt_token_count =
                          prompt_token_count (resp_usage_metadata r)
                            + prompt_token_count (resp_usage_metadata follow),
                        res_response_token_count =
                          candidates_token_count (resp_usage_metadata r)
                            + candidates_token_count (resp_usage_metadata follow)\<rparr>\<rparr>)))
   \<and> (session c = Some ses \<and> ses_list_tools ses (tool_log w) = Inr tools
      \<and> tools_schema rt tools = Inr descs
      \<and> service (model_log w)
            \<lparr>req_model = ''gemini-1.5-flash'', req_contents = [Query query],
             req_tools = Some descs\<rparr> = ModelReplies r
      \<and> resp_candidates r = [cand] \<and> parts_of cand = pre @ p # ps
      \<and> list_all (\<lambda>p. part_function_call p = None) pre
      \<and> part_function_call p = Some fc
      \<and> normalize_args rt (fc_args fc) = Inr args
      \<and> ses_call_tool ses (tool_log w) (fc_name fc) args
          = ToolReturns \<lparr>ctr_content = TextContent raw # rest, ctr_isError = True\<rparr>
      \<and> list_all (\<lambda>p. part_function_call p = None) ps
      \<longrightarrow> fst (mcp_process_query rt service c query w)
        = Inr \<lparr>res_text =
                 Some (strip (join ''\<newline>''
                   (concat (map (\<lambda>p. nonempty_text (part_text p)) pre)
                    @ [''[Called '' @ fc_name fc @ '': '' @ list_result rt raw @ '']'']
                    @ concat (map (\<lambda>p. nonempty_text (part_text p)) ps)))),
               res_usage_metadata =
                 \<lparr>res_prompt_token_count = prompt_token_count (resp_usage_metadata r),
               res_response_token_count = candidates_token_count (resp_usage_metadata r)\<rparr>\<rparr>)
   \<and> (service (model_log w)
            \<lparr>req_model = ''gemini-1.5-flash'', req_contents = [Query query],
             req_tools = Some func_schemas\<rparr> = ModelReplies r
      \<and> first_part r = Inr p \<and> part_function_call p = Some fc
      \<and> normalize_args rt (fc_args fc) = Inr args
      \<and> fst (call_function rt (fc_name fc) args
             (w\<lparr>model_log := model_log w @ [(\<lparr>req_model = ''gemini-1.5-flash'', req_contents = [Query query],
             req_tools = Some func_schemas\<rparr>, ModelReplies r)],
                stdout := stdout w @ [PrintCalling ''function'' (fc_name fc) args]\<rparr>)) = Inl e
      \<longrightarrow> fst (gemini_process_query rt service query w) = Inl e
        \<and> length (new_exchanges w (snd (gemini_process_query rt service query w))) = 1)
   \<and> (session c = Some ses \<and> ses_list_tools ses (tool_log w) = Inr tools
      \<and> tools_schema rt tools = Inr descs
      \<and> service (model_log w)
            \<lparr>req_model = ''gemini-1.5-flash'', req_contents = [Query query],
             req_tools = Some descs\<rparr> = ModelReplies r
      \<and> resp_candidates r = cand # others \<and> parts_of cand = pre @ p # post
      \<and> list_all (\<lambda>p. part_function_call p = None) pre
      \<and> part_function_call p = Some fc
      \<and> normalize_args rt (fc_args fc) = Inr args
      \<and> ses_call_tool ses (tool_log w) (fc_name fc) args = ToolRaises e
      \<longrightarrow> fst (mcp_process_query rt service c query w) = Inl e)"
proof (intro conjI impI)
  assume "service (model_log w)
            \<lparr>req_model = ''gemini-1.5-flash'', req_contents = [Query query],
             req_tools = Some func_schemas\<rparr> = ModelReplies r
      \<and> first_part r = Inr p \<and> part_function_call p = Some fc
      \<and> normalize_args rt (fc_args fc) = Inr args
      \<and> fc_name fc \<noteq> ''read_file'' \<and> fc_name fc \<noteq> ''write_file''
      \<and> fc_name fc \<noteq> ''search_file''"
  then show "call_function rt (fc_name fc) args
          (w\<lparr>model_log := model_log w @ [(\<lparr>req_model = ''gemini-1.5-flash'', req_contents = [Query query],
             req_tools = Some func_schemas\<rparr>, ModelReplies r)],
                stdout := stdout w @ [PrintCalling ''function'' (fc_name fc) args]\<rparr>)
        = (Inr (JStr (''Unknown function: '' @ fc_name fc)),
           (w\<lparr>model_log := model_log w @ [(\<lparr>req_model = ''gemini-1.5-flash'', req_contents = [Query query],
             req_tools = Some func_schemas\<rparr>, ModelReplies r)],
                stdout := stdout w @ [PrintCalling ''function'' (fc_name fc) args]\<rparr>))"
    by (elim conjE) (rule call_function_unknown; assumption)
next
  assume "service (model_log w)
            \<lparr>req_model = ''gemini-1.5-flash'', req_contents = [Query query],
             req_tools = Some func_schemas\<rparr> = ModelReplies r
      \<and> first_part r = Inr p \<and> part_function_call p = Some fc
      \<and> normalize_args rt (fc_args fc) = Inr args
      \<and> fc_name fc \<noteq> ''read_file'' \<and> fc_name fc \<noteq> ''write_file''
      \<and> fc_name fc \<noteq> ''search_file''"
  then show "new_exchanges w (snd (gemini_process_query rt service query w)) =
        [(\<lparr>req_model = ''gemini-1.5-flash'', req_contents = [Query query],
             req_tools = Some func_schemas\<rparr>, ModelReplies r),
         (\<lparr>req_model = ''gemini-2.0-flash'',
             req_contents =
               [JsonDumps (JObj [(''name'', JStr (fc_name fc)),
                                 (''result'', JStr (''Unknown function: '' @ fc_name fc))])],
             req_tools = Some func_schemas\<rparr>,
          service (model_log w @ [(\<lparr>req_model = ''gemini-1.5-flash'', req_contents = [Query query],
             req_tools = Some func_schemas\<rparr>, ModelReplies r)])
            \<lparr>req_model = ''gemini-2.0-flash'',
             req_contents =
               [JsonDumps (JObj [(''name'', JStr (fc_name fc)),
                                 (''result'', JStr (''Unknown function: '' @ fc_name fc))])],
             req_tools = Some func_schemas\<rparr>)]"
    by (elim conjE) (rule gemini_unknown_function; assumption)
next
  assume "service (model_log w)
            \<lparr>req_model = ''gemini-1.5-flash'', req_contents = [Query query],
             req_tools = Some func_schemas\<rparr> = ModelReplies r
      \<and> first_part r = Inr p \<and> part_function_call p = Some fc
      \<and> normalize_args rt (fc_args fc) = Inr args
      \<and> fc_name fc \<noteq> ''read_file'' \<and> fc_name fc \<noteq> ''write_file''
      \<and> fc_name fc \<noteq> ''search_file''"
  then show "fst (gemini_process_query rt service query w) =
        (case service (model_log w @ [(\<lparr>req_model = ''gemini-1.5-flash'', req_contents = [Query query],
             req_tools = Some func_schemas\<rparr>, ModelReplies r)])
            \<lparr>req_model = ''gemini-2.0-flash'',
             req_contents =
               [JsonDumps (JObj [(''name'', JStr (fc_name fc)),
                                 (''result'', JStr (''Unknown function: '' @ fc_name fc))])],
             req_tools = Some func_schemas\<rparr> of
           ModelRaises e \<Rightarrow> Inl e
         | ModelReplies follow \<Rightarrow>
             (case first_part follow of
                Inl e \<Rightarrow> Inl e
              | Inr q \<Rightarrow>
                  Inr \<lparr>res_text = part_text q,
                       res_usage_metadata =
                         \<lparr>res_prompt_token_count =
                          prompt_token_count (resp_usage_metadata r)
                            + prompt_token_count (resp_usage_metadata follow),
                        res_response_token_count =
                          candidates_token_count (resp_usage_metadata r)
                            + candidates_token_count (resp_usage_metadata follow)\<rparr>\<rparr>))"
    by (elim conjE) (rule gemini_unknown_function_result; assumption)
next
  assume "session c = Some ses \<and> ses_list_tools ses (tool_log w) = Inr tools
      \<and> tools_schema rt tools = Inr descs
      \<and> service (model_log w)
            \<lparr>req_model = ''gemini-1.5-flash'', req_contents = [Query query],
             req_tools = Some descs\<rparr> = ModelReplies r
      \<and> resp_candidates r = [cand] \<and> parts_of cand = pre @ p # ps
      \<and> list_all (\<lambda>p. part_function_call p = None) pre
      \<and> part_function_call p = Some fc
      \<and> normalize_args rt (fc_args fc) = Inr args
      \<and> ses_call_tool ses (tool_log w) (fc_name fc) args
          = ToolReturns \<lparr>ctr_content = TextContent raw # rest, ctr_isError = True\<rparr>
      \<and> list_all (\<lambda>p. part_function_call p = None) ps"
  then show "fst (mcp_process_query rt service c query w)
        = Inr \<lparr>res_text =
                 Some (strip (join ''\<newline>''
                   (concat (map (\<lambda>p. nonempty_text (part_text p)) pre)
                    @ [''[Called '' @ fc_name fc @ '': '' @ list_result rt raw @ '']'']
                    @ concat (map (\<lambda>p. nonempty_text (part_text p)) ps)))),
               res_usage_metadata =
                 \<lparr>res_prompt_token_count = prompt_token_count (resp_usage_metadata r),
               res_response_token_count = candidates_token_count (resp_usage_metadata r)\<rparr>\<rparr>"
    by (elim conjE) (rule mcp_error_result; assumption)
next
  assume h: "service (model_log w)
            \<lparr>req_model = ''gemini-1.5-flash'', req_contents = [Query query],
             req_tools = Some func_schemas\<rparr> = ModelReplies r
      \<and> first_part r = Inr p \<and> part_function_call p = Some fc
      \<and> normalize_args rt (fc_args fc) = Inr args
      \<and> fst (call_function rt (fc_name fc) args
             (w\<lparr>model_log := model_log w @ [(\<lparr>req_model = ''gemini-1.5-flash'', req_contents = [Query query],
             req_tools = Some func_schemas\<rparr>, ModelReplies r)],
                stdout := stdout w @ [PrintCalling ''function'' (fc_name fc) args]\<rparr>)) = Inl e"
  show "fst (gemini_process_query rt service query w) = Inl e"
    using h by (elim conjE) (rule conjunct1 [OF gemini_tool_raises]; assumption)
next
  assume h: "service (model_log w)
            \<lparr>req_model = ''gemini-1.5-flash'', req_contents = [Query query],
             req_tools = Some func_schemas\<rparr> = ModelReplies r
      \<and> first_part r = Inr p \<and> part_function_call p = Some fc
      \<and> normalize_args rt (fc_args fc) = Inr args
      \<and> fst (call_function rt (fc_name fc) args
             (w\<lparr>model_log := model_log w @ [(\<lparr>req_model = ''gemini-1.5-flash'', req_contents = [Query query],
             req_tools = Some func_schemas\<rparr>, ModelReplies r)],
                stdout := stdout w @ [PrintCalling ''function'' (fc_name fc) args]\<rparr>)) = Inl e"
  show "length (new_exchanges w (snd (gemini_process_query rt service query w))) = 1"
    using h by (elim conjE) (rule conjunct2 [OF gemini_tool_raises]; assumption)
next
  assume "session c = Some ses \<and> ses_list_tools ses (tool_log w) = Inr tools
      \<and> tools_schema rt tools = Inr descs
      \<and> service (model_log w)
            \<lparr>req_model = ''gemini-1.5-flash'', req_contents = [Query query],
             req_tools = Some descs\<rparr> = ModelReplies r
      \<and> resp_candidates r = cand # others \<and> parts_of cand = pre @ p # post
      \<and> list_all (\<lambda>p. part_function_call p = None) pre
      \<and> part_function_call p = Some fc
      \<and> normalize_args rt (fc_args fc) = Inr args
      \<and> ses_call_tool ses (tool_log w) (fc_name fc) args = ToolRaises e"
  then show "fst (mcp_process_query rt service c query w) = Inl e"
    by (elim conjE) (rule mcp_tool_raises; assumption)
qed

theorem tool_failures_witness:
  "((calls_then_answers ''delete_file'' [(''file_path'', JStr ''notes.txt'')] ''There is no such tool.'') (model_log example_world)
            \<lparr>req_model = ''gemini-1.5-flash'', req_contents = [Query ''delete notes.txt''],
             req_tools = Some func_schemas\<rparr> = ModelReplies (call_reply ''delete_file'' [(''file_path'', JStr ''notes.txt'')] 3 5)
      \<and> first_part (call_reply ''delete_file'' [(''file_path'', JStr ''notes.txt'')] 3 5) = Inr \<lparr>part_function_call = Some \<lparr>fc_name = ''delete_file'', fc_args = ArgsDict [(''file_path'', JStr ''notes.txt'')]\<rparr>, part_text = None\<rparr> \<and> part_function_call \<lparr>part_function_call = Some \<lparr>fc_name = ''delete_file'', fc_args = ArgsDict [(''file_path'', JStr ''notes.txt'')]\<rparr>, part_text = None\<rparr> = Some \<lparr>fc_name = ''delete_file'', fc_args = ArgsDict [(''file_path'', JStr ''notes.txt'')]\<rparr>
      \<and> normalize_args example_runtime (fc_args \<lparr>fc_name = ''delete_file'', fc_args = ArgsDict [(''file_path'', JStr ''notes.txt'')]\<rparr>) = Inr (JObj [(''file_path'', JStr ''notes.txt'')])
      \<and> fc_name \<lparr>fc_name = ''delete_file'', fc_args = ArgsDict [(''file_path'', JStr ''notes.txt'')]\<rparr> \<noteq> ''read_file'' \<and> fc_name \<lparr>fc_name = ''delete_file'', fc_args = ArgsDict [(''file_path'', JStr ''notes.txt'')]\<rparr> \<noteq> ''write_file''
      \<and> fc_name \<lparr>fc_name = ''delete_file'', fc_args = ArgsDict [(''file_path'', JStr ''notes.txt'')]\<rparr> \<noteq> ''search_file'')
   \<and> (call_function example_runtime (fc_name \<lparr>fc_name = ''delete_file'', fc_args = ArgsDict [(''file_path'', JStr ''notes.txt'')]\<rparr>) (JObj [(''file_path'', JStr ''notes.txt'')])
          (example_world\<lparr>model_log := model_log example_world @ [(\<lparr>req_model = ''gemini-1.5-flash'', req_contents = [Query ''delete notes.txt''],
             req_tools = Some func_schemas\<rparr>, ModelReplies (call_reply ''delete_file'' [(''file_path'', JStr ''notes.txt'')] 3 5))],
                stdout := stdout example_world @ [PrintCalling ''function'' (fc_name \<lparr>fc_name = ''delete_file'', fc_args = ArgsDict [(''file_path'', JStr ''notes.txt'')]\<rparr>) (JObj [(''file_path'', JStr ''notes.txt'')])]\<rparr>)
        = (Inr (JStr (''Unknown function: '' @ fc_name \<lparr>fc_name = ''delete_file'', fc_args = ArgsDict [(''file_path'', JStr ''notes.txt'')]\<rparr>)),
           (example_world\<lparr>model_log := model_log example_world @ [(\<lparr>req_model = ''gemini-1.5-flash'', req_contents = [Query ''delete notes.txt''],
             req_tools = Some func_schemas\<rparr>, ModelReplies (call_reply ''delete_file'' [(''file_path'', JStr ''notes.txt'')] 3 5))],
                stdout := stdout example_world @ [PrintCalling ''function'' (fc_name \<lparr>fc_name = ''delete_file'', fc_args = ArgsDict [(''file_path'', JStr ''notes.txt'')]\<rparr>) (JObj [(''file_path'', JStr ''notes.txt'')])]\<rparr>))
        \<and> new_exchanges example_world (snd (gemini_process_query example_runtime (calls_then_answers ''delete_file'' [(''file_path'', JStr ''notes.txt'')] ''There is no such tool.'') ''delete notes.txt'' example_world)) =
        [(\<lparr>req_model = ''gemini-1.5-flash'', req_contents = [Query ''delete notes.txt''],
             req_tools = Some func_schemas\<rparr>, ModelReplies (call_reply ''delete_file'' [(''file_path'', JStr ''notes.txt'')] 3 5)),
         (\<lparr>req_model = ''gemini-2.0-flash'',
             req_contents =
               [JsonDumps (JObj [(''name'', JStr (fc_name \<lparr>fc_name = ''delete_file'', fc_args = ArgsDict [(''file_path'', JStr ''notes.txt'')]\<rparr>)),
                                 (''result'', JStr (''Unknown function: '' @ fc_name \<lparr>fc_name = ''delete_file'', fc_args = ArgsDict [(''file_path'', JStr ''notes.txt'')]\<rparr>))])],
             req_tools = Some func_schemas\<rparr>,
          (calls_then_answers ''delete_file'' [(''file_path'', JStr ''notes.txt'')] ''There is no such tool.'') (model_log example_world @ [(\<lparr>req_model = ''gemini-1.5-flash'', req_contents = [Query ''delete notes.txt''],
             req_tools = Some func_schemas\<rparr>, ModelReplies (call_reply ''delete_file'' [(''file_path'', JStr ''notes.txt'')] 3 5))])
            \<lparr>req_model = ''gemini-2.0-flash'',
             req_contents =
               [JsonDumps (JObj [(''name'', JStr (fc_name \<lparr>fc_name = ''delete_file'', fc_args = ArgsDict [(''file_path'', JStr ''notes.txt'')]\<rparr>)),
                                 (''result'', JStr (''Unknown function: '' @ fc_name \<lparr>fc_name = ''delete_file'', fc_args = ArgsDict [(''file_path'', JStr ''notes.txt'')]\<rparr>))])],
             req_tools = Some func_schemas\<rparr>)]
        \<and> fst (gemini_process_query example_runtime (calls_then_answers ''delete_file'' [(''file_path'', JStr ''notes.txt'')] ''There is no such tool.'') ''delete notes.txt'' example_world) =
        (case (calls_then_answers ''delete_file'' [(''file_path'', JStr ''notes.txt'')] ''There is no such tool.'') (model_log example_world @ [(\<lparr>req_model = ''gemini-1.5-flash'', req_contents = [Query ''delete notes.txt''],
             req_tools = Some func_schemas\<rparr>, ModelReplies (call_reply ''delete_file'' [(''file_path'', JStr ''notes.txt'')] 3 5))])
            \<lparr>req_model = ''gemini-2.0-flash'',
             req_contents =
               [JsonDumps (JObj [(''name'', JStr (fc_name \<lparr>fc_name = ''delete_file'', fc_args = ArgsDict [(''file_path'', JStr ''notes.txt'')]\<rparr>)),
                                 (''result'', JStr (''Unknown function: '' @ fc_name \<lparr>fc_name = ''delete_file'', fc_args = ArgsDict [(''file_path'', JStr ''notes.txt'')]\<rparr>))])],
             req_tools = Some func_schemas\<rparr> of
           ModelRaises e \<Rightarrow> Inl e
         | ModelReplies follow \<Rightarrow>
             (case first_part follow of
                Inl e \<Rightarrow> Inl e
              | Inr q \<Rightarrow>
                  Inr \<lparr>res_text = part_text q,
                       res_usage_metadata =
                         \<lparr>res_prompt_token_count =
                          prompt_token_count (resp_usage_metadata (call_reply ''delete_file'' [(''file_path'', JStr ''notes.txt'')] 3 5))
                            + prompt_token_count (resp_usage_metadata follow),
                        res_response_token_count =
                          candidates_token_count (resp_usage_metadata (call_reply ''delete_file'' [(''file_path'', JStr ''notes.txt'')] 3 5))
                            + candidates_token_count (resp_usage_metadata follow)\<rparr>\<rparr>)))
   \<and> (session example_client = Some example_session \<and> ses_list_tools example_session (tool_log example_world) = Inr [\<lparr>tool_name = ''search_file'',
                       tool_description = Some ''Search for files by extension'',
                       tool_inputSchema =
                         [(''type'', JStr ''object''),
                          (''properties'', JObj [(''extension'', JObj [(''type'', JStr ''string'')])]),
                          (''required'', JList [JStr ''extension''])]\<rparr>]
      \<and> tools_schema example_runtime [\<lparr>tool_name = ''search_file'',
                       tool_description = Some ''Search for files by extension'',
                       tool_inputSchema =
                         [(''type'', JStr ''object''),
                          (''properties'', JObj [(''extension'', JObj [(''type'', JStr ''string'')])]),
                          (''required'', JList [JStr ''extension''])]\<rparr>] = Inr [\<lparr>fd_name = ''search_file'',
                   fd_description = Some ''Search for files by extension'',
                   fd_parameters =
                     \<lparr>par_type = JStr ''object'',
                      par_properties =
                        [(''extension'', \<lparr>prop_type = JStr ''string'', prop_description = JStr []\<rparr>)],
                      par_required = JList [JStr ''extension'']\<rparr>\<rparr>]
      \<and> (always_calls ''delete_file'' [(''file_path'', JStr ''notes.txt'')]) (model_log example_world)
            \<lparr>req_model = ''gemini-1.5-flash'', req_contents = [Query ''delete notes.txt''],
             req_tools = Some [\<lparr>fd_name = ''search_file'',
                   fd_description = Some ''Search for files by extension'',
                   fd_parameters =
                     \<lparr>par_type = JStr ''object'',
                      par_properties =
                        [(''extension'', \<lparr>prop_type = JStr ''string'', prop_description = JStr []\<rparr>)],
                      par_required = JList [JStr ''extension'']\<rparr>\<rparr>]\<rparr> = ModelReplies (call_reply ''delete_file'' [(''file_path'', JStr ''notes.txt'')] 3 5)
      \<and> resp_candidates (call_reply ''delete_file'' [(''file_path'', JStr ''notes.txt'')] 3 5) = [\<lparr>cand_content = \<lparr>content_parts = Some [\<lparr>part_function_call = Some \<lparr>fc_name = ''delete_file'', fc_args = ArgsDict [(''file_path'', JStr ''notes.txt'')]\<rparr>, part_text = None\<rparr>], content_text = None\<rparr>\<rparr>] \<and> parts_of \<lparr>cand_content = \<lparr>content_parts = Some [\<lparr>part_function_call = Some \<lparr>fc_name = ''delete_file'', fc_args = ArgsDict [(''file_path'', JStr ''notes.txt'')]\<rparr>, part_text = None\<rparr>], content_text = None\<rparr>\<rparr> = ([]::part list) @ \<lparr>part_function_call = Some \<lparr>fc_name = ''delete_file'', fc_args = ArgsDict [(''file_path'', JStr ''notes.txt'')]\<rparr>, part_text = None\<rparr> # ([]::part list)
      \<and> list_all (\<lambda>p. part_function_call p = None) ([]::part list)
      \<and> part_function_call \<lparr>part_function_call = Some \<lparr>fc_name = ''delete_file'', fc_args = ArgsDict [(''file_path'', JStr ''notes.txt'')]\<rparr>, part_text = None\<rparr> = Some \<lparr>fc_name = ''delete_file'', fc_args = ArgsDict [(''file_path'', JStr ''notes.txt'')]\<rparr>
      \<and> normalize_args example_runtime (fc_args \<lparr>fc_name = ''delete_file'', fc_args = ArgsDict [(''file_path'', JStr ''notes.txt'')]\<rparr>) = Inr (JObj [(''file_path'', JStr ''notes.txt'')])
      \<and> ses_call_tool example_session (tool_log example_world) (fc_name \<lparr>fc_name = ''delete_file'', fc_args = ArgsDict [(''file_path'', JStr ''notes.txt'')]\<rparr>) (JObj [(''file_path'', JStr ''notes.txt'')])
          = ToolReturns \<lparr>ctr_content = TextContent ''Unknown tool: delete_file'' # [], ctr_isError = True\<rparr>
      \<and> list_all (\<lambda>p. part_function_call p = None) ([]::part list))
   \<and> (fst (mcp_process_query example_runtime (always_calls ''delete_file'' [(''file_path'', JStr ''notes.txt'')]) example_client ''delete notes.txt'' example_world)
        = Inr \<lparr>res_text =
                 Some (strip (join ''\<newline>''
                   (concat (map (\<lambda>p. nonempty_text (part_text p)) ([]::part list))
                    @ [''[Called '' @ fc_name \<lparr>fc_name = ''delete_file'', fc_args = ArgsDict [(''file_path'', JStr ''notes.txt'')]\<rparr> @ '': '' @ list_result example_runtime ''Unknown tool: delete_file'' @ '']'']
                    @ concat (map (\<lambda>p. nonempty_text (part_text p)) ([]::part list))))),
               res_usage_metadata =
                 \<lparr>res_prompt_token_count = prompt_token_count (resp_usage_metadata (call_reply ''delete_file'' [(''file_path'', JStr ''notes.txt'')] 3 5)),
               res_response_token_count = candidates_token_count (resp_usage_metadata (call_reply ''delete_file'' [(''file_path'', JStr ''notes.txt'')] 3 5))\<rparr>\<rparr>)
   \<and> ((always_calls ''read_file'' [(''file_path'', JStr ''missing.txt'')]) (model_log example_world)
            \<lparr>req_model = ''gemini-1.5-flash'', req_contents = [Query ''read missing.txt''],
             req_tools = Some func_schemas\<rparr> = ModelReplies (call_reply ''read_file'' [(''file_path'', JStr ''missing.txt'')] 3 5)
      \<and> first_part (call_reply ''read_file'' [(''file_path'', JStr ''missing.txt'')] 3 5) = Inr \<lparr>part_function_call = Some \<lparr>fc_name = ''read_file'', fc_args = ArgsDict [(''file_path'', JStr ''missing.txt'')]\<rparr>, part_text = None\<rparr> \<and> part_function_call \<lparr>part_function_call = Some \<lparr>fc_name = ''read_file'', fc_args = ArgsDict [(''file_path'', JStr ''missing.txt'')]\<rparr>, part_text = None\<rparr> = Some \<lparr>fc_name = ''read_file'', fc_args = ArgsDict [(''file_path'', JStr ''missing.txt'')]\<rparr>
      \<and> normalize_args example_runtime (fc_args \<lparr>fc_name = ''read_file'', fc_args = ArgsDict [(''file_path'', JStr ''missing.txt'')]\<rparr>) = Inr (JObj [(''file_path'', JStr ''missing.txt'')])
      \<and> fst (call_function example_runtime (fc_name \<lparr>fc_name = ''read_file'', fc_args = ArgsDict [(''file_path'', JStr ''missing.txt'')]\<rparr>) (JObj [(''file_path'', JStr ''missing.txt'')])
             (example_world\<lparr>model_log := model_log example_world @ [(\<lparr>req_model = ''gemini-1.5-flash'', req_contents = [Query ''read missing.txt''],
             req_tools = Some func_schemas\<rparr>, ModelReplies (call_reply ''read_file'' [(''file_path'', JStr ''missing.txt'')] 3 5))],
                stdout := stdout example_world @ [PrintCalling ''function'' (fc_name \<lparr>fc_name = ''read_file'', fc_args = ArgsDict [(''file_path'', JStr ''missing.txt'')]\<rparr>) (JObj [(''file_path'', JStr ''missing.txt'')])]\<rparr>)) = Inl FileNotFoundError)
   \<and> (fst (gemini_process_query example_runtime (always_calls ''read_file'' [(''file_path'', JStr ''missing.txt'')]) ''read missing.txt'' example_world) = Inl FileNotFoundError
        \<and> length (new_exchanges example_world (snd (gemini_process_query example_runtime (always_calls ''read_file'' [(''file_path'', JStr ''missing.txt'')]) ''read missing.txt'' example_world))) = 1)
   \<and> (session broken_client = Some broken_session \<and> ses_list_tools broken_session (tool_log example_world) = Inr [\<lparr>tool_name = ''search_file'',
                       tool_description = Some ''Search for files by extension'',
                       tool_inputSchema =
                         [(''type'', JStr ''object''),
                          (''properties'', JObj [(''extension'', JObj [(''type'', JStr ''string'')])]),
                          (''required'', JList [JStr ''extension''])]\<rparr>]
      \<and> tools_schema example_runtime [\<lparr>tool_name = ''search_file'',
                       tool_description = Some ''Search for files by extension'',
                       tool_inputSchema =
                         [(''type'', JStr ''object''),
                          (''properties'', JObj [(''extension'', JObj [(''type'', JStr ''string'')])]),
                          (''required'', JList [JStr ''extension''])]\<rparr>] = Inr [\<lparr>fd_name = ''search_file'',
                   fd_description = Some ''Search for files by extension'',
                   fd_parameters =
                     \<lparr>par_type = JStr ''object'',
                      par_properties =
                        [(''extension'', \<lparr>prop_type = JStr ''string'', prop_description = JStr []\<rparr>)],
                      par_required = JList [JStr ''extension'']\<rparr>\<rparr>]
      \<and> (always_calls ''search_file'' [(''extension'', JStr ''.py'')]) (model_log example_world)
            \<lparr>req_model = ''gemini-1.5-flash'', req_contents = [Query ''find the python files''],
             req_tools = Some [\<lparr>fd_name = ''search_file'',
                   fd_description = Some ''Search for files by extension'',
                   fd_parameters =
                     \<lparr>par_type = JStr ''object'',
                      par_properties =
                        [(''extension'', \<lparr>prop_type = JStr ''string'', prop_description = JStr []\<rparr>)],
                      par_required = JList [JStr ''extension'']\<rparr>\<rparr>]\<rparr> = ModelReplies (call_reply ''search_file'' [(''extension'', JStr ''.py'')] 3 5)
      \<and> resp_candidates (call_reply ''search_file'' [(''extension'', JStr ''.py'')] 3 5) = \<lparr>cand_content = \<lparr>content_parts = Some [\<lparr>part_function_call = Some \<lparr>fc_name = ''search_file'', fc_args = ArgsDict [(''extension'', JStr ''.py'')]\<rparr>, part_text = None\<rparr>], content_text = None\<rparr>\<rparr> # [] \<and> parts_of \<lparr>cand_content = \<lparr>content_parts = Some [\<lparr>part_function_call = Some \<lparr>fc_name = ''search_file'', fc_args = ArgsDict [(''extension'', JStr ''.py'')]\<rparr>, part_text = None\<rparr>], content_text = None\<rparr>\<rparr> = ([]::part list) @ \<lparr>part_function_call = Some \<lparr>fc_name = ''search_file'', fc_args = ArgsDict [(''extension'', JStr ''.py'')]\<rparr>, part_text = None\<rparr> # []
      \<and> list_all (\<lambda>p. part_function_call p = None) ([]::part list)
      \<and> part_function_call \<lparr>part_function_call = Some \<lparr>fc_name = ''search_file'', fc_args = ArgsDict [(''extension'', JStr ''.py'')]\<rparr>, part_text = None\<rparr> = Some \<lparr>fc_name = ''search_file'', fc_args = ArgsDict [(''extension'', JStr ''.py'')]\<rparr>
      \<and> normalize_args example_runtime (fc_args \<lparr>fc_name = ''search_file'', fc_args = ArgsDict [(''extension'', JStr ''.py'')]\<rparr>) = Inr (JObj [(''extension'', JStr ''.py'')])
      \<and> ses_call_tool broken_session (tool_log example_world) (fc_name \<lparr>fc_name = ''search_file'', fc_args = ArgsDict [(''extension'', JStr ''.py'')]\<rparr>) (JObj [(''extension'', JStr ''.py'')]) = ToolRaises (McpError ''Connection closed''))
   \<and> (fst (mcp_process_query example_runtime (always_calls ''search_file'' [(''extension'', JStr ''.py'')]) broken_client ''find the python files'' example_world) = Inl (McpError ''Connection closed''))"
  (is "?ha \<and> ?ca \<and> ?hb \<and> ?cb \<and> ?hc \<and> ?cc \<and> ?hd \<and> ?cd")
proof -
  note ia = tool_failures [where service = "(calls_then_answers ''delete_file'' [(''file_path'', JStr ''notes.txt'')] ''There is no such tool.'')" and w = "example_world" and query = "''delete notes.txt''" and rt = "example_runtime" and r = "(call_reply ''delete_file'' [(''file_path'', JStr ''notes.txt'')] 3 5)" and p = "\<lparr>part_function_call = Some \<lparr>fc_name = ''delete_file'', fc_args = ArgsDict [(''file_path'', JStr ''notes.txt'')]\<rparr>, part_text = None\<rparr>" and fc = "\<lparr>fc_name = ''delete_file'', fc_args = ArgsDict [(''file_path'', JStr ''notes.txt'')]\<rparr>" and args = "(JObj [(''file_path'', JStr ''notes.txt'')])"]
  note ib = tool_failures [where service = "(always_calls ''delete_file'' [(''file_path'', JStr ''notes.txt'')])" and w = "example_world" and query = "''delete notes.txt''" and rt = "example_runtime" and c = "example_client" and ses = "example_session" and tools = "[\<lparr>tool_name = ''search_file'',
                       tool_description = Some ''Search for files by extension'',
                       tool_inputSchema =
                         [(''type'', JStr ''object''),
                          (''properties'', JObj [(''extension'', JObj [(''type'', JStr ''string'')])]),
                          (''required'', JList [JStr ''extension''])]\<rparr>]" and descs = "[\<lparr>fd_name = ''search_file'',
                   fd_description = Some ''Search for files by extension'',
                   fd_parameters =
                     \<lparr>par_type = JStr ''object'',
                      par_properties =
                        [(''extension'', \<lparr>prop_type = JStr ''string'', prop_description = JStr []\<rparr>)],
                      par_required = JList [JStr ''extension'']\<rparr>\<rparr>]" and r = "(call_reply ''delete_file'' [(''file_path'', JStr ''notes.txt'')] 3 5)" and cand = "\<lparr>cand_content = \<lparr>content_parts = Some [\<lparr>part_function_call = Some \<lparr>fc_name = ''delete_file'', fc_args = ArgsDict [(''file_path'', JStr ''notes.txt'')]\<rparr>, part_text = None\<rparr>], content_text = None\<rparr>\<rparr>" and p = "\<lparr>part_function_call = Some \<lparr>fc_name = ''delete_file'', fc_args = ArgsDict [(''file_path'', JStr ''notes.txt'')]\<rparr>, part_text = None\<rparr>" and pre = "([]::part list)" and ps = "([]::part list)" and fc = "\<lparr>fc_name = ''delete_file'', fc_args = ArgsDict [(''file_path'', JStr ''notes.txt'')]\<rparr>" and args = "(JObj [(''file_path'', JStr ''notes.txt'')])" and raw = "''Unknown tool: delete_file''" and rest = "[]"]
  note ic = tool_failures [where service = "(always_calls ''read_file'' [(''file_path'', JStr ''missing.txt'')])" and w = "example_world" and query = "''read missing.txt''" and rt = "example_runtime" and r = "(call_reply ''read_file'' [(''file_path'', JStr ''missing.txt'')] 3 5)" and p = "\<lparr>part_function_call = Some \<lparr>fc_name = ''read_file'', fc_args = ArgsDict [(''file_path'', JStr ''missing.txt'')]\<rparr>, part_text = None\<rparr>" and fc = "\<lparr>fc_name = ''read_file'', fc_args = ArgsDict [(''file_path'', JStr ''missing.txt'')]\<rparr>" and args = "(JObj [(''file_path'', JStr ''missing.txt'')])" and e = "FileNotFoundError"]
  note id = tool_failures [where service = "(always_calls ''search_file'' [(''extension'', JStr ''.py'')])" and w = "example_world" and query = "''find the python files''" and rt = "example_runtime" and c = "broken_client" and ses = "broken_session" and tools = "[\<lparr>tool_name = ''search_file'',
                       tool_description = Some ''Search for files by extension'',
                       tool_inputSchema =
                         [(''type'', JStr ''object''),
                          (''properties'', JObj [(''extension'', JObj [(''type'', JStr ''string'')])]),
                          (''required'', JList [JStr ''extension''])]\<rparr>]" and descs = "[\<lparr>fd_name = ''search_file'',
                   fd_description = Some ''Search for files by extension'',
                   fd_parameters =
                     \<lparr>par_type = JStr ''object'',
                      par_properties =
                        [(''extension'', \<lparr>prop_type = JStr ''string'', prop_description = JStr []\<rparr>)],
                      par_required = JList [JStr ''extension'']\<rparr>\<rparr>]" and r = "(call_reply ''search_file'' [(''extension'', JStr ''.py'')] 3 5)" and cand = "\<lparr>cand_content = \<lparr>content_parts = Some [\<lparr>part_function_call = Some \<lparr>fc_name = ''search_file'', fc_args = ArgsDict [(''extension'', JStr ''.py'')]\<rparr>, part_text = None\<rparr>], content_text = None\<rparr>\<rparr>" and others = "[]" and pre = "([]::part list)" and post = "[]" and p = "\<lparr>part_function_call = Some \<lparr>fc_name = ''search_file'', fc_args = ArgsDict [(''extension'', JStr ''.py'')]\<rparr>, part_text = None\<rparr>" and fc = "\<lparr>fc_name = ''search_file'', fc_args = ArgsDict [(''extension'', JStr ''.py'')]\<rparr>" and args = "(JObj [(''extension'', JStr ''.py'')])" and e = "(McpError ''Connection closed'')"]
  have ha: ?ha
    by (simp add: calls_then_answers_def call_reply_def first_part_def normalize_args_def
        example_world_def)
  have hb: ?hb
    by (simp add: always_calls_def call_reply_def normalize_args_def parts_of_def
        example_client_def example_session_def tools_schema_def example_runtime_def
        translate_tool_def translate_property_def dict_get_def)
  have hc: ?hc
    by (simp add: always_calls_def call_reply_def first_part_def normalize_args_def
        call_function_def bind_args_def read_file_def read_bytes_def stat_def is_file_def
        node_at_def normalize_path_def is_relative_to_def example_runtime_def
        example_world_def Let_def)
  have hd: ?hd
    by (simp add: always_calls_def call_reply_def normalize_args_def parts_of_def
        broken_client_def broken_session_def example_client_def example_session_def
        tools_schema_def example_runtime_def translate_tool_def translate_property_def
        dict_get_def)
  have ca: ?ca by (rule mp [OF conjunct1 [OF ia] ha])
  have cb: ?cb by (rule mp [OF conjunct1 [OF conjunct2 [OF ib]] hb])
  have cc: ?cc by (rule mp [OF conjunct1 [OF conjunct2 [OF conjunct2 [OF ic]]] hc])
  have cd: ?cd by (rule mp [OF conjunct2 [OF conjunct2 [OF conjunct2 [OF id]]] hd])
  show ?thesis by (intro conjI ha ca hb cb hc cc hd cd)
qed

text \<open>
  The claim as stated fails when a tool itself raises: the model asks to read a file
  that does not exist, \<^verbatim>\<open>read_file\<close> raises \<^verbatim>\<open>FileNotFoundError\<close>, and so does
  \<^verbatim>\<open>GeminiClient.process_query\<close>; the provider's \<^verbatim>\<open>call_tool\<close> raises, and so does
  \<^verbatim>\<open>MCPClient.process_query\<close>.
\<close>

theorem tool_failures_counterexample:
  "fst (gemini_process_query example_runtime
         (always_calls ''read_file'' [(''file_path'', JStr ''missing.txt'')])
         ''read missing.txt'' example_world)
     = Inl FileNotFoundError
   \<and> fst (mcp_process_query example_runtime
         (always_calls ''search_file'' [(''extension'', JStr ''.py'')])
         broken_client ''find the python files'' example_world)
     = Inl (McpError ''Connection closed'')"
  by (simp add: gemini_process_query_def mcp_process_query_def generate_content_def
      always_calls_def call_reply_def first_part_def normalize_args_def call_function_def
      bind_args_def read_file_def read_bytes_def stat_def is_file_def node_at_def
      normalize_path_def is_relative_to_def broken_client_def broken_session_def
      example_client_def example_session_def tools_schema_def translate_tool_def
      translate_property_def dict_get_def process_candidate_def process_part_def
      call_tool_def example_runtime_def example_world_def Let_def)

section \<open>Properties: the interactive loops\<close>

text \<open>
  The loops of \<^verbatim>\<open>MCPClient\<close> and \<^verbatim>\<open>GeminiClient\<close> leave normally at the first line that
  is an exit token, having read nothing after it; they leave with \<^verbatim>\<open>EOFError\<close> when the
  input ends without one; and an error of \<^verbatim>\<open>process_query\<close> is printed and the loop
  goes on with the next line. The loop of \<^verbatim>\<open>SimpleChatClient\<close> leaves with the error.
\<close>

lemma gemini_loop_exits:
  assumes "list_all (\<lambda>l. \<not> is_exit_token (strip l)) pre" and "is_exit_token (strip tok)"
  shows "fst (gemini_loop rt service (pre @ tok # post) w) = Inr ()
     \<and> fst (snd (gemini_loop rt service (pre @ tok # post) w)) = post"
  using assms
  by (induction pre arbitrary: w) (simp_all add: Let_def split: prod.split sum.split)

lemma gemini_loop_eof:
  assumes "list_all (\<lambda>l. \<not> is_exit_token (strip l)) lines"
  shows "fst (gemini_loop rt service lines w) = Inl EOFError"
  using assms
  by (induction lines arbitrary: w) (simp_all add: Let_def split: prod.split sum.split)

lemma gemini_loop_error:
  assumes "\<not> is_exit_token (strip line)"
    and "gemini_process_query rt service (strip line) (prompt w) = (Inl e, w')"
  shows "gemini_loop rt service (line # lines) w
     = gemini_loop rt service lines (w'\<lparr>stdout := stdout w' @ [PrintError ''Error: '' e]\<rparr>)"
  using assms by (simp add: Let_def)

lemma mcp_loop_exits:
  assumes "list_all (\<lambda>l. \<not> is_exit_token (strip l)) pre" and "is_exit_token (strip tok)"
  shows "fst (mcp_loop rt service c (pre @ tok # post) w) = Inr ()
     \<and> fst (snd (mcp_loop rt service c (pre @ tok # post) w)) = post"
  using assms
  by (induction pre arbitrary: w) (simp_all add: Let_def split: prod.split sum.split)

lemma mcp_loop_eof:
  assumes "list_all (\<lambda>l. \<not> is_exit_token (strip l)) lines"
  shows "fst (mcp_loop rt service c lines w) = Inl EOFError"
  using assms
  by (induction lines arbitrary: w) (simp_all add: Let_def split: prod.split sum.split)

lemma mcp_loop_error:
  assumes "\<not> is_exit_token (strip line)"
    and "mcp_process_query rt service c (strip line) (prompt w) = (Inl e, w')"
  shows "mcp_loop rt service c (line # lines) w
     = mcp_loop rt service c lines (w'\<lparr>stdout := stdout w' @ [PrintError ''\<newline>Error: '' e]\<rparr>)"
  using assms by (simp add: Let_def)

lemma simple_loop_error:
  assumes "\<not> is_exit_token (strip line)"
    and "simple_process_query service (strip line) (prompt w) = (Inl e, w')"
  shows "simple_loop service (line # lines) w = (Inl e, lines, w')"
  using assms by (simp add: Let_def)

lemma lower_char_add_32:
  "is_upper c \<Longrightarrow> (of_char (lower_char c) :: nat) = of_char c + 32"
  by (cases c) (simp add: lower_char_def is_upper_def Let_def of_bool_def split: if_splits)

lemma hi_is_no_exit_token: "\<not> is_exit_token (strip ''hi'')"
  by (simp add: is_exit_token_def strip_def isspace_def lower_def lower_char_def is_upper_def)

lemma quit_is_exit_token: "is_exit_token (strip '' QUIT '')"
  by (simp add: is_exit_token_def strip_def isspace_def lower_def lower_char_def is_upper_def)

text \<open>
  C9. The model service raises on the first query, and the input then says \<^verbatim>\<open>quit\<close>.
  \<^verbatim>\<open>SimpleChatClient.chat_loop\<close> ends with the error: nothing is printed for it and the
  \<^verbatim>\<open>quit\<close> line is never read. On the same input \<^verbatim>\<open>GeminiClient.chat_loop\<close> prints
  the error, prompts again and leaves normally on \<^verbatim>\<open>quit\<close>.
\<close>

theorem chat_loop_error:
  "fst (simple_chat_loop (always_raises (ClientError ''429 quota exceeded'')) [''hi'', ''quit'']
         example_world)
     = Inl (ClientError ''429 quota exceeded'')
   \<and> fst (snd (simple_chat_loop (always_raises (ClientError ''429 quota exceeded''))
          [''hi'', ''quit''] example_world))
     = [''quit'']
   \<and> fst (gemini_chat_loop example_runtime (always_raises (ClientError ''429 quota exceeded''))
          [''hi'', ''quit''] example_world)
     = Inr ()
   \<and> stdout (snd (snd (gemini_chat_loop example_runtime
          (always_raises (ClientError ''429 quota exceeded'')) [''hi'', ''quit''] example_world)))
     = [Print ''\<newline>Gemini Client Started! (Function Calling)'',
        Print ''Type your queries or 'quit' to exit.'',
        Print ''\<newline>Query: '',
        PrintError ''Error: '' (ClientError ''429 quota exceeded''),
        Print ''\<newline>Query: '']"
proof -
  have hi: "\<not> is_exit_token (strip ''hi'')"
    by (simp add: is_exit_token_def strip_def isspace_def lower_def lower_char_def is_upper_def)
  have quit: "is_exit_token (strip ''quit'')"
    by (simp add: is_exit_token_def strip_def isspace_def lower_def lower_char_def is_upper_def)
  have s: "simple_process_query (always_raises e) q w
      = (Inl e, w\<lparr>model_log := model_log w @
           [(\<lparr>req_model = ''gemini-1.5-flash'', req_contents = [Query q], req_tools = None\<rparr>,
             ModelRaises e)]\<rparr>)" for e q w
    by (simp add: simple_process_query_def generate_content_def always_raises_def Let_def)
  have g: "gemini_process_query rt (always_raises e) q w
      = (Inl e, w\<lparr>model_log := model_log w @
           [(\<lparr>req_model = ''gemini-1.5-flash'', req_contents = [Query q],
               req_tools = Some func_schemas\<rparr>, ModelRaises e)]\<rparr>)" for rt e q w
    by (simp add: gemini_process_query_def generate_content_def always_raises_def Let_def)
  show ?thesis
    by (simp add: simple_chat_loop_def gemini_chat_loop_def hi quit s g prompt_def
        example_world_def Let_def)
qed

section \<open>Properties: replies without parts\<close>

text \<open>
  C7. The reply has one candidate whose content has no parts and the flat text
  \<^verbatim>\<open>hello\<close>. \<^verbatim>\<open>GeminiClient.process_query\<close> and \<^verbatim>\<open>SimpleChatClient.process_query\<close>
  raise \<^verbatim>\<open>TypeError\<close> on indexing the missing parts; \<^verbatim>\<open>MCPClient.process_query\<close>
  falls back to the flat text and returns it.
\<close>

theorem parts_fallback:
  "fst (gemini_process_query example_runtime (answers_flat ''hello'') ''hi'' example_world)
     = Inl TypeError
   \<and> fst (simple_process_query (answers_flat ''hello'') ''hi'' example_world) = Inl TypeError
   \<and> fst (mcp_process_query example_runtime (answers_flat ''hello'') example_client ''hi''
          example_world)
     = Inr \<lparr>res_text = Some ''hello'',
            res_usage_metadata = \<lparr>res_prompt_token_count = 3, res_response_token_count = 5\<rparr>\<rparr>"
proof (intro conjI)
  show "fst (gemini_process_query example_runtime (answers_flat ''hello'') ''hi'' example_world)
     = Inl TypeError"
    by (simp add: gemini_process_query_def generate_content_def answers_flat_def flat_reply_def
        first_part_def Let_def)
  show "fst (simple_process_query (answers_flat ''hello'') ''hi'' example_world) = Inl TypeError"
    by (simp add: simple_process_query_def generate_content_def answers_flat_def flat_reply_def
        first_part_def Let_def)
  show "fst (mcp_process_query example_runtime (answers_flat ''hello'') example_client ''hi''
          example_world)
     = Inr \<lparr>res_text = Some ''hello'',
            res_usage_metadata = \<lparr>res_prompt_token_count = 3, res_response_token_count = 5\<rparr>\<rparr>"
    by (simp add: mcp_process_query_def generate_content_def answers_flat_def flat_reply_def
        example_client_def example_session_def example_world_def tools_schema_def example_runtime_def translate_tool_def
        translate_property_def dict_get_def process_candidate_def
        strip_def isspace_def Let_def)
qed

section \<open>Properties: the file tools and the working directory\<close>

lemma normalize_path_denied:
  assumes "resolve rt (expanduser rt file_path) = Inr resolved"
    and "\<not> is_relative_to resolved (ALLOWED_BASE rt)"
  shows "normalize_path rt file_path = Inl (PermissionError resolved)"
  using assms by (simp add: normalize_path_def)

lemma normalize_path_allowed:
  assumes "normalize_path rt file_path = Inr path"
  shows "is_relative_to path (ALLOWED_BASE rt)"
  using assms by (simp add: normalize_path_def Let_def split: sum.splits if_splits)

lemma path_tools_denied:
  assumes "resolve rt (expanduser rt file_path) = Inr resolved"
    and "\<not> is_relative_to resolved (ALLOWED_BASE rt)"
  shows "read_file rt file_path w = (Inl (PermissionError resolved), w)"
    and "write_file rt file_path content w = (Inl (PermissionError resolved), w)"
    and "search_file rt extension file_path w = (Inl (PermissionError resolved), w)"
  using normalize_path_denied [OF assms]
  by (simp_all add: read_file_def write_file_def search_file_def)

lemma read_file_confined:
  "fs (snd (read_file rt file_path w)) = fs w
   \<and> (\<exists>ps. fs_reads (snd (read_file rt file_path w)) = fs_reads w @ ps
         \<and> list_all (\<lambda>p. is_relative_to p (ALLOWED_BASE rt)) ps)"
proof (cases "normalize_path rt file_path")
  case (Inl e)
  then show ?thesis by (simp add: read_file_world read_file_logs)
next
  case (Inr path)
  then have "is_relative_to path (ALLOWED_BASE rt)" by (rule normalize_path_allowed)
  then show ?thesis using Inr by (simp add: read_file_world read_file_logs)
qed

lemma search_file_unfiltered:
  assumes "normalize_path rt search_dir = Inr dirp"
    and "rglob rt (fs w) dirp extension = Inr ps"
  shows "fst (search_file rt extension search_dir w) = Inr (map path_str ps)"
  using assms by (simp add: search_file_def Let_def)

text \<open>
  C10. A path argument that resolves outside the working directory is refused by all
  three tools with \<^verbatim>\<open>PermissionError\<close> and nothing is touched, and \<^verbatim>\<open>read_file\<close> reads
  only inside the working directory (the lemmas above). But \<^verbatim>\<open>search_file\<close> builds
  its pattern from the extension as it arrives: with the extension
  \<^verbatim>\<open>/../../secret.txt\<close> the search that starts in \<^verbatim>\<open>/work\<close> lists
  \<^verbatim>\<open>/work/sub/../../secret.txt\<close>, the file \<^verbatim>\<open>/secret.txt\<close> outside the working
  directory, a path that \<^verbatim>\<open>normalize_path\<close> itself refuses; and
  \<^verbatim>\<open>GeminiClient.process_query\<close> sends that listing to the model.
\<close>

theorem search_file_escapes:
  "fst (search_file traversal_runtime (JStr ''/../../secret.txt'') ''.'' traversal_world)
     = Inr [''/work/sub/../../secret.txt'']
   \<and> fst (call_function traversal_runtime ''search_file''
            (JObj [(''extension'', JStr ''/../../secret.txt'')]) traversal_world)
     = Inr (JList [JStr ''/work/sub/../../secret.txt''])
   \<and> normalize_path traversal_runtime ''/work/sub/../../secret.txt''
     = Inl (PermissionError [''secret.txt''])
   \<and> fst (read_file traversal_runtime ''/work/sub/../../secret.txt'' traversal_world)
     = Inl (PermissionError [''secret.txt''])
   \<and> map fst (new_exchanges traversal_world
        (snd (gemini_process_query traversal_runtime
               (calls_then_answers ''search_file'' [(''extension'', JStr ''/../../secret.txt'')]
                  ''Found it.'')
               ''what is next to the working directory?'' traversal_world)))
     = [\<lparr>req_model = ''gemini-1.5-flash'',
         req_contents = [Query ''what is next to the working directory?''],
         req_tools = Some func_schemas\<rparr>,
        \<lparr>req_model = ''gemini-2.0-flash'',
         req_contents =
           [JsonDumps (JObj [(''name'', JStr ''search_file''),
                             (''result'', JList [JStr ''/work/sub/../../secret.txt''])])],
         req_tools = Some func_schemas\<rparr>]"
  (is "?s \<and> ?c \<and> ?n \<and> ?r \<and> ?g")
proof -
  have n0: "normalize_path traversal_runtime ''.'' = Inr [''work'']"
    by (simp add: normalize_path_def is_relative_to_def traversal_runtime_def
        example_runtime_def)
  have g0: "rglob traversal_runtime (fs traversal_world) [''work'']
              (JStr ''/../../secret.txt'')
            = Inr [[''work'', ''sub'', ''..'', ''..'', ''secret.txt'']]"
    by (simp add: traversal_runtime_def traversal_world_def example_world_def is_dir_def
        is_file_def stat_def node_at_def)
  have cw: "fst (call_function traversal_runtime ''search_file''
                  (JObj [(''extension'', JStr ''/../../secret.txt'')]) w)
              = Inr (JList [JStr ''/work/sub/../../secret.txt''])"
    if "fs w = fs traversal_world" for w
  proof -
    have "rglob traversal_runtime (fs w) [''work''] (JStr ''/../../secret.txt'')
            = Inr [[''work'', ''sub'', ''..'', ''..'', ''secret.txt'']]"
      using g0 that by simp
    from search_file_unfiltered [OF n0 this]
    have "fst (search_file traversal_runtime (JStr ''/../../secret.txt'') ''.'' w)
            = Inr [''/work/sub/../../secret.txt'']"
      by (simp add: path_str_def)
    then show ?thesis
      by (simp add: call_function_def bind_args_def dict_get_def case_prod_beta
          split: sum.split)
  qed
  have s: ?s
    using search_file_unfiltered [OF n0 g0] by (simp add: path_str_def)
  have c: ?c by (rule cw) simp
  have n: ?n
    by (simp add: normalize_path_def is_relative_to_def traversal_runtime_def
        example_runtime_def)
  have r: ?r using n by (simp add: read_file_def)
  have ml: "model_log traversal_world = []"
    by (simp add: traversal_world_def example_world_def)
  have g: ?g
    by (simp add: gemini_process_query_def generate_content_def calls_then_answers_def
        call_reply_def text_reply_def first_part_def normalize_args_def new_exchanges_def
        ml cw call_function_logs Let_def case_prod_beta split: sum.split)
  show ?thesis by (intro conjI s c n r g)
qed

end
